theory Spec2Isabelle
  imports Main "HOL-Library.Word"
begin

unbundle bit_operations_syntax

section \<open>Values crossing the language boundary\<close>

text \<open>
  Go's \<open>int\<close> is taken as 64 bits wide (amd64), \<open>uint32\<close>, \<open>uint16\<close>, \<open>uint8\<close> and
  \<open>int16\<close> as words of their width, C's \<open>int\<close> as 32 bits.  A C pointer is an address,
  0 being \<open>NULL\<close>; Go pointers to rectangles, events and integers that are only cast
  and handed to C are addresses too (0 is \<open>nil\<close>): what they point to holds no
  pointers, so the pointer check of cgo lets them pass.  A pixel format is an address
  as well; it is taken to be the format of a surface, which the native library
  allocated, and the pointer check does not look into memory of the native library.
\<close>

type_synonym go_int = "64 word"
type_synonym cptr = nat

datatype cval =
    C_int "32 word"
  | C_Uint32 "32 word"
  | C_Uint8 "8 word"
  | C_ptr cptr
  | C_string string

text \<open>The conversions \<open>C.int(x)\<close> of a Go \<open>int\<close> and \<open>int(c)\<close>, \<open>uint8(c)\<close>, ... of a C
  integer result.  The C headers are not part of the repository: an integer result of
  a native function is given by its value, and the Go conversion reduces it to the
  target width.\<close>

definition c_int :: "go_int \<Rightarrow> cval" where
  "c_int x = C_int (ucast x)"

definition go_int_of :: "int \<Rightarrow> go_int" where
  "go_int_of v = word_of_int v"

definition go_uint8_of :: "int \<Rightarrow> 8 word" where
  "go_uint8_of v = word_of_int v"

definition go_uint32_of :: "int \<Rightarrow> 32 word" where
  "go_uint32_of v = word_of_int v"

definition go_int16_of :: "int \<Rightarrow> 16 word" where
  "go_int16_of v = word_of_int v"

section \<open>The native library and the platform, as parameters\<close>

text \<open>The fields of \<open>C.SDL_Surface\<close> that \<open>Surface.reload\<close> reads.\<close>

record SDL_Surface =
  c_flags :: "32 word"
  c_format :: cptr
  c_w :: "32 word"
  c_h :: "32 word"
  c_pitch :: "32 word"
  c_pixels :: cptr

text \<open>
  The native functions are not code of the repository.  They are parameters: a native
  function is named by its C name, takes the converted arguments and the library's
  state \<open>'n\<close>, and yields its result and the new library state.  \<open>GOOS\<close> is
  \<open>runtime.GOOS\<close>; \<open>INIT_VIDEO\<close> is the constant of that name, declared in a file that
  is not among the sources.
\<close>

record 'n platform =
  int_fn :: "string \<Rightarrow> cval list \<Rightarrow> 'n \<Rightarrow> int \<times> 'n"
  ptr_fn :: "string \<Rightarrow> cval list \<Rightarrow> 'n \<Rightarrow> cptr \<times> 'n"
  str_fn :: "string \<Rightarrow> cval list \<Rightarrow> 'n \<Rightarrow> string \<times> 'n"
  void_fn :: "string \<Rightarrow> cval list \<Rightarrow> 'n \<Rightarrow> 'n"
  surface_at :: "'n \<Rightarrow> cptr \<Rightarrow> SDL_Surface"
  GOOS :: string
  INIT_VIDEO :: "32 word"

section \<open>The binding's data\<close>

datatype kind =
    reflect_Invalid | reflect_Bool | reflect_Int | reflect_Int8 | reflect_Int16
  | reflect_Int32 | reflect_Int64 | reflect_Uint | reflect_Uint8 | reflect_Uint16
  | reflect_Uint32 | reflect_Uint64 | reflect_Uintptr | reflect_Float32 | reflect_Float64
  | reflect_Complex64 | reflect_Complex128 | reflect_Array | reflect_Chan | reflect_Func
  | reflect_Interface | reflect_Map | reflect_Ptr | reflect_Slice | reflect_String
  | reflect_Struct | reflect_UnsafePointer

text \<open>A non-nil \<open>interface{}\<close> value, as far as \<open>reflect\<close> and cgo ask about it: its
  kind, what \<open>Value.Pointer\<close> returns, and whether that pointer points to Go memory
  that holds a Go pointer (cgo refuses to hand such a pointer to C).  A nil interface
  is \<open>None\<close>.\<close>

record dynval =
  val_kind :: kind
  val_pointer :: cptr
  val_holds_go_pointer :: bool

record Surface =
  cSurface :: cptr
  Flags :: "32 word"
  Format :: cptr
  W :: "32 word"
  H :: "32 word"
  Pitch :: "16 word"
  Pixels :: cptr
  gcPixels :: "dynval option"

text \<open>The fields \<open>Flags\<close>, \<open>X\<close>, \<open>Y\<close>, \<open>W\<close>, \<open>H\<close> of \<open>Window\<close> carry a \<open>w\<close> here, the names
  being taken by \<open>Surface\<close>.  The mutex of a surface is not a field of the record: its
  state is kept with the other mutexes.\<close>

record Window =
  cWindow :: cptr
  wFlags :: "32 word"
  wX :: "32 word"
  wY :: "32 word"
  wW :: "32 word"
  wH :: "32 word"

record Renderer =
  cRenderer :: cptr

record Texture =
  cTexture :: cptr

record Joystick =
  cJoystick :: cptr

record Chunk =
  cchunk :: cptr

record Color =
  R :: "8 word"
  G :: "8 word"
  B :: "8 word"
  Alpha :: "8 word"
  Unused :: "8 word"

section \<open>Effects: locks, native calls, panics\<close>

datatype mutex = GlobalMutex | surface_mutex nat

datatype lock_state = free | writer | readers nat

datatype event =
    Lock mutex
  | Unlock mutex
  | RLock mutex
  | RUnlock mutex
  | Native string "cval list"
  | C_free cval
  | Printf string
  | Setenv string string
  | Sleep "64 word"

text \<open>How a call ends when it does not return: a run-time panic (nil dereference,
  \<open>panic(msg)\<close>, or the panic of the cgo pointer check: a Go pointer to memory that
  holds a Go pointer was about to be handed to C), the fatal error of unlocking a
  mutex that is not locked, or waiting forever for a mutex the caller holds itself.
  \<open>unallocated\<close> stands for reading an address that holds no object, which no Go
  program does.\<close>

datatype stop =
    nil_dereference
  | panic_string string
  | cgo_pointer_panic
  | fatal_unlock
  | blocked_forever
  | unallocated

text \<open>
  The state one caller runs in.  \<open>surfaces\<close> is the Go heap of \<open>Surface\<close> objects: a
  \<open>*Surface\<close> is \<open>None\<close> (nil) or \<open>Some a\<close>, the object at index \<open>a\<close>; two pointers are
  equal when they are the same address.  The wrappers of windows, renderers,
  textures, joysticks and chunks are never written after their construction and
  never compared, so a pointer to one is \<open>None\<close> or \<open>Some\<close> of its value.
  \<open>held\<close> is the state of every mutex as this caller left it; \<open>trace\<close> records,
  oldest first, what the caller does to the mutexes and which native functions it
  enters.  The mutex of the surface at address \<open>a\<close> is \<open>surface_mutex a\<close>.  The
  model follows one caller: waiting for a mutex that another caller holds and gives
  back is not an event of its own, while locking a mutex the caller holds itself
  never ends.
\<close>

record 'n world =
  native :: 'n
  trace :: "event list"
  held :: "mutex \<Rightarrow> lock_state"
  environ :: "string \<Rightarrow> string"
  surfaces :: "Surface list"
  currentVideoSurface :: "nat option"

type_synonym ('a, 'n) go = "'n world \<Rightarrow> (stop + 'a) \<times> 'n world"

definition return :: "'a \<Rightarrow> ('a, 'n) go" where
  "return x = (\<lambda>s. (Inr x, s))"

definition raise :: "stop \<Rightarrow> ('a, 'n) go" where
  "raise e = (\<lambda>s. (Inl e, s))"

definition bind :: "('a, 'n) go \<Rightarrow> ('a \<Rightarrow> ('b, 'n) go) \<Rightarrow> ('b, 'n) go" where
  "bind m f = (\<lambda>s. case m s of (Inl e, s') \<Rightarrow> (Inl e, s') | (Inr x, s') \<Rightarrow> f x s')"

definition seq :: "(unit, 'n) go \<Rightarrow> ('b, 'n) go \<Rightarrow> ('b, 'n) go" where
  "seq m k = bind m (\<lambda>_. k)"

text \<open>\<open>defer d\<close> followed by a body: the deferred call runs when the body returns and
  when it panics; it does not run when the body never ends or the run time stops the
  program with a fatal error.  Every deferred call in the sources is
  \<open>GlobalMutex.Unlock()\<close>, right after the lock was taken; what it returns is dropped.\<close>

fun runs_deferred :: "stop \<Rightarrow> bool" where
  "runs_deferred blocked_forever = False"
| "runs_deferred fatal_unlock = False"
| "runs_deferred e = True"

definition deferring :: "(unit, 'n) go \<Rightarrow> ('a, 'n) go \<Rightarrow> ('a, 'n) go" where
  "deferring d body = (\<lambda>s. case body s of
       (Inl e, s') \<Rightarrow> (Inl e, if runs_deferred e then snd (d s') else s')
     | (Inr x, s') \<Rightarrow> (Inr x, snd (d s')))"

definition emit :: "event \<Rightarrow> (unit, 'n) go" where
  "emit e = (\<lambda>s. (Inr (), s\<lparr>trace := trace s @ [e]\<rparr>))"

subsection \<open>\<open>sync.Mutex\<close> and \<open>sync.RWMutex\<close>\<close>

definition Mutex_Lock :: "mutex \<Rightarrow> (unit, 'n) go" where
  "Mutex_Lock m = (\<lambda>s.
     if held s m = free
     then (Inr (), s\<lparr>trace := trace s @ [Lock m], held := (held s)(m := writer)\<rparr>)
     else (Inl blocked_forever, s))"

definition Mutex_Unlock :: "mutex \<Rightarrow> (unit, 'n) go" where
  "Mutex_Unlock m = (\<lambda>s.
     if held s m = writer
     then (Inr (), s\<lparr>trace := trace s @ [Unlock m], held := (held s)(m := free)\<rparr>)
     else (Inl fatal_unlock, s))"

definition Mutex_RLock :: "mutex \<Rightarrow> (unit, 'n) go" where
  "Mutex_RLock m = (\<lambda>s.
     case held s m of
       free \<Rightarrow> (Inr (), s\<lparr>trace := trace s @ [RLock m], held := (held s)(m := readers 1)\<rparr>)
     | readers k \<Rightarrow>
         (Inr (), s\<lparr>trace := trace s @ [RLock m], held := (held s)(m := readers (Suc k))\<rparr>)
     | writer \<Rightarrow> (Inl blocked_forever, s))"

definition Mutex_RUnlock :: "mutex \<Rightarrow> (unit, 'n) go" where
  "Mutex_RUnlock m = (\<lambda>s.
     case held s m of
       readers (Suc k) \<Rightarrow>
         (Inr (), s\<lparr>trace := trace s @ [RUnlock m],
                    held := (held s)(m := (if k = 0 then free else readers k))\<rparr>)
     | _ \<Rightarrow> (Inl fatal_unlock, s))"

subsection \<open>Pointers\<close>

text \<open>Reading a field through a pointer panics when the pointer is nil.\<close>

definition deref :: "'a option \<Rightarrow> ('a, 'n) go" where
  "deref p = (case p of None \<Rightarrow> raise nil_dereference | Some x \<Rightarrow> return x)"

definition surface_addr :: "nat option \<Rightarrow> (nat, 'n) go" where
  "surface_addr p = (case p of None \<Rightarrow> raise nil_dereference | Some a \<Rightarrow> return a)"

definition read_surface :: "nat option \<Rightarrow> (Surface, 'n) go" where
  "read_surface p = bind (surface_addr p) (\<lambda>a s.
     if a < length (surfaces s) then (Inr (surfaces s ! a), s) else (Inl unallocated, s))"

definition write_surface :: "nat \<Rightarrow> Surface \<Rightarrow> (unit, 'n) go" where
  "write_surface a v = (\<lambda>s.
     if a < length (surfaces s) then (Inr (), s\<lparr>surfaces := (surfaces s)[a := v]\<rparr>)
     else (Inl unallocated, s))"

text \<open>\<open>var surface Surface\<close> whose address is taken: a new object, all fields zero.\<close>

definition zero_Surface :: Surface where
  "zero_Surface = \<lparr>cSurface = 0, Flags = 0, Format = 0, W = 0, H = 0, Pitch = 0,
     Pixels = 0, gcPixels = None\<rparr>"

definition new_surface :: "(nat option, 'n) go" where
  "new_surface = (\<lambda>s.
     (Inr (Some (length (surfaces s))), s\<lparr>surfaces := surfaces s @ [zero_Surface]\<rparr>))"

subsection \<open>Entering the native library, the environment, the package variable\<close>

text \<open>The call is recorded, then the library runs.\<close>

definition call_int :: "'n platform \<Rightarrow> string \<Rightarrow> cval list \<Rightarrow> (int, 'n) go" where
  "call_int P f args = seq (emit (Native f args)) (\<lambda>s.
     case int_fn P f args (native s) of (v, n') \<Rightarrow> (Inr v, s\<lparr>native := n'\<rparr>))"

definition call_ptr :: "'n platform \<Rightarrow> string \<Rightarrow> cval list \<Rightarrow> (cptr, 'n) go" where
  "call_ptr P f args = seq (emit (Native f args)) (\<lambda>s.
     case ptr_fn P f args (native s) of (v, n') \<Rightarrow> (Inr v, s\<lparr>native := n'\<rparr>))"

definition call_str :: "'n platform \<Rightarrow> string \<Rightarrow> cval list \<Rightarrow> (string, 'n) go" where
  "call_str P f args = seq (emit (Native f args)) (\<lambda>s.
     case str_fn P f args (native s) of (v, n') \<Rightarrow> (Inr v, s\<lparr>native := n'\<rparr>))"

definition call_void :: "'n platform \<Rightarrow> string \<Rightarrow> cval list \<Rightarrow> (unit, 'n) go" where
  "call_void P f args = seq (emit (Native f args)) (\<lambda>s.
     (Inr (), s\<lparr>native := void_fn P f args (native s)\<rparr>))"

definition Getenv :: "string \<Rightarrow> (string, 'n) go" where
  "Getenv k = (\<lambda>s. (Inr (environ s k), s))"

definition os_Setenv :: "string \<Rightarrow> string \<Rightarrow> (unit, 'n) go" where
  "os_Setenv k v = seq (emit (Setenv k v))
     (\<lambda>s. (Inr (), s\<lparr>environ := (environ s)(k := v)\<rparr>))"

definition get_currentVideoSurface :: "(nat option, 'n) go" where
  "get_currentVideoSurface = (\<lambda>s. (Inr (currentVideoSurface s), s))"

definition set_currentVideoSurface :: "nat option \<Rightarrow> (unit, 'n) go" where
  "set_currentVideoSurface p = (\<lambda>s. (Inr (), s\<lparr>currentVideoSurface := p\<rparr>))"

section \<open>Package sdl: wrapping native handles\<close>

text \<open>\<open>wrapWindow\<close> declares a zero \<open>Window\<close> and calls \<open>SetCWindow\<close> on it, which stores
  the handle and calls \<open>Window.reload\<close>, whose body is empty.\<close>

definition wrapWindow :: "cptr \<Rightarrow> Window option" where
  "wrapWindow c =
     (if c \<noteq> 0
      then Some \<lparr>cWindow = c, wFlags = 0, wX = 0, wY = 0, wW = 0, wH = 0\<rparr>
      else None)"

definition wrapRenderer :: "cptr \<Rightarrow> Renderer option" where
  "wrapRenderer c = (if c \<noteq> 0 then Some \<lparr>cRenderer = c\<rparr> else None)"

definition wrapTexture :: "cptr \<Rightarrow> Texture option" where
  "wrapTexture c = (if c \<noteq> 0 then Some \<lparr>cTexture = c\<rparr> else None)"

definition wrapJoystick :: "cptr \<Rightarrow> Joystick option" where
  "wrapJoystick c = (if c \<noteq> 0 then Some \<lparr>cJoystick = c\<rparr> else None)"

text \<open>\<open>Surface.reload\<close>: the first statement reads \<open>s.cSurface.flags\<close>, which panics
  when \<open>s\<close> or \<open>s.cSurface\<close> is nil, before any field is written.\<close>

definition reload :: "'n platform \<Rightarrow> nat option \<Rightarrow> (unit, 'n) go" where
  "reload P s =
     bind (read_surface s) (\<lambda>v.
     if cSurface v = 0 then raise nil_dereference
     else bind (\<lambda>w. (Inr (surface_at P (native w) (cSurface v)), w)) (\<lambda>c.
          bind (surface_addr s) (\<lambda>a.
          write_surface a (v\<lparr>Flags := c_flags c, Format := c_format c, W := c_w c,
            H := c_h c, Pitch := ucast (c_pitch c), Pixels := c_pixels c\<rparr>))))"

definition SetCSurface :: "'n platform \<Rightarrow> nat option \<Rightarrow> cptr \<Rightarrow> (unit, 'n) go" where
  "SetCSurface P s c =
     bind (read_surface s) (\<lambda>v.
     bind (surface_addr s) (\<lambda>a.
     seq (write_surface a (v\<lparr>cSurface := c\<rparr>))
         (reload P s)))"

text \<open>\<open>Window.reload\<close> has an empty body; \<open>SetCWindow\<close> yields the window as written.\<close>

definition SetCWindow :: "Window option \<Rightarrow> cptr \<Rightarrow> (Window, 'n) go" where
  "SetCWindow s c = bind (deref s) (\<lambda>v. return (v\<lparr>cWindow := c\<rparr>))"

definition wrapSurface :: "'n platform \<Rightarrow> cptr \<Rightarrow> (nat option, 'n) go" where
  "wrapSurface P c =
     (if c \<noteq> 0
      then bind new_surface (\<lambda>s. seq (SetCSurface P s c) (return s))
      else return None)"

definition destroy :: "nat option \<Rightarrow> (unit, 'n) go" where
  "destroy s =
     bind (read_surface s) (\<lambda>v.
     bind (surface_addr s) (\<lambda>a.
     write_surface a (v\<lparr>cSurface := 0, Format := 0, Pixels := 0, gcPixels := None\<rparr>)))"

section \<open>Package sdl: renderer and texture\<close>

definition CreateRenderer ::
  "'n platform \<Rightarrow> Window option \<Rightarrow> go_int \<Rightarrow> 32 word \<Rightarrow> (Renderer option, 'n) go" where
  "CreateRenderer P w index flags =
     seq (Mutex_Lock GlobalMutex)
     (deferring (Mutex_Unlock GlobalMutex)
       (bind (deref w) (\<lambda>w'.
        bind (call_ptr P ''SDL_CreateRenderer''
               [C_ptr (cWindow w'), c_int index, C_Uint32 flags]) (\<lambda>renderer.
        return (wrapRenderer renderer)))))"

definition Renderer_Clear :: "'n platform \<Rightarrow> Renderer option \<Rightarrow> (unit, 'n) go" where
  "Renderer_Clear P r =
     seq (Mutex_Lock GlobalMutex)
     (deferring (Mutex_Unlock GlobalMutex)
       (bind (deref r) (\<lambda>r'.
        call_void P ''SDL_RenderClear'' [C_ptr (cRenderer r')])))"

definition Renderer_Copy ::
  "'n platform \<Rightarrow> Renderer option \<Rightarrow> Texture option \<Rightarrow> cptr \<Rightarrow> cptr \<Rightarrow> (unit, 'n) go" where
  "Renderer_Copy P r t src dst =
     seq (Mutex_Lock GlobalMutex)
     (deferring (Mutex_Unlock GlobalMutex)
       (bind (deref r) (\<lambda>r'.
        bind (deref t) (\<lambda>t'.
        call_void P ''SDL_RenderCopy''
          [C_ptr (cRenderer r'), C_ptr (cTexture t'), C_ptr src, C_ptr dst]))))"

definition Renderer_Present :: "'n platform \<Rightarrow> Renderer option \<Rightarrow> (unit, 'n) go" where
  "Renderer_Present P r =
     seq (Mutex_Lock GlobalMutex)
     (deferring (Mutex_Unlock GlobalMutex)
       (bind (deref r) (\<lambda>r'.
        call_void P ''SDL_RenderPresent'' [C_ptr (cRenderer r')])))"

definition Renderer_SetDrawColor ::
  "'n platform \<Rightarrow> Renderer option \<Rightarrow> Color \<Rightarrow> (unit, 'n) go" where
  "Renderer_SetDrawColor P r c =
     seq (Mutex_Lock GlobalMutex)
     (deferring (Mutex_Unlock GlobalMutex)
       (bind (deref r) (\<lambda>r'.
        call_void P ''SDL_SetRenderDrawColor''
          [C_ptr (cRenderer r'), C_Uint8 (R c), C_Uint8 (G c), C_Uint8 (B c),
           C_Uint8 (Alpha c)])))"

definition Renderer_FillRect :: "'n platform \<Rightarrow> Renderer option \<Rightarrow> cptr \<Rightarrow> (unit, 'n) go" where
  "Renderer_FillRect P r rect =
     seq (Mutex_Lock GlobalMutex)
     (deferring (Mutex_Unlock GlobalMutex)
       (bind (deref r) (\<lambda>r'.
        seq (emit (Printf (''null? '' @ (if cRenderer r' = 0 then ''true'' else ''false'')
                           @ [CHR 0x0A])))
            (call_void P ''SDL_RenderFillRect'' [C_ptr (cRenderer r'), C_ptr rect]))))"

definition Renderer_Destroy :: "'n platform \<Rightarrow> Renderer option \<Rightarrow> (unit, 'n) go" where
  "Renderer_Destroy P r =
     seq (Mutex_Lock GlobalMutex)
     (deferring (Mutex_Unlock GlobalMutex)
       (bind (deref r) (\<lambda>r'.
        call_void P ''SDL_DestroyRenderer'' [C_ptr (cRenderer r')])))"

definition CreateTextureFromSurface ::
  "'n platform \<Rightarrow> Renderer option \<Rightarrow> nat option \<Rightarrow> (Texture option, 'n) go" where
  "CreateTextureFromSurface P r s =
     seq (Mutex_Lock GlobalMutex)
     (deferring (Mutex_Unlock GlobalMutex)
       (bind (deref r) (\<lambda>r'.
        bind (read_surface s) (\<lambda>s'.
        bind (call_ptr P ''SDL_CreateTextureFromSurface''
               [C_ptr (cRenderer r'), C_ptr (cSurface s')]) (\<lambda>texture.
        return (wrapTexture texture))))))"

definition Texture_Destroy :: "'n platform \<Rightarrow> Texture option \<Rightarrow> (unit, 'n) go" where
  "Texture_Destroy P t =
     seq (Mutex_Lock GlobalMutex)
     (deferring (Mutex_Unlock GlobalMutex)
       (bind (deref t) (\<lambda>t'.
        call_void P ''SDL_DestroyTexture'' [C_ptr (cTexture t')])))"

section \<open>Package sdl: general\<close>

text \<open>The string literal, byte for byte as the source file has it.\<close>

definition GoSdlVersion :: "(string, 'n) go" where
  "GoSdlVersion = return
     ([CHR 0xC3, CHR 0xA2, CHR 0xC5, CHR 0xA1, CHR 0xE2, CHR 0x80, CHR 0xBA]
      @ ''SDL bindings 1.0'')"

definition Init :: "'n platform \<Rightarrow> 32 word \<Rightarrow> (go_int, 'n) go" where
  "Init P flags =
     seq (Mutex_Lock GlobalMutex)
     (bind (call_int P ''SDL_Init'' [C_Uint32 flags]) (\<lambda>c0.
      bind (let status = go_int_of c0 in
            if status \<noteq> 0 \<and> GOOS P = ''darwin'' \<and> flags AND INIT_VIDEO P \<noteq> 0
            then bind (Getenv ''SDL_VIDEODRIVER'') (\<lambda>v.
                 if v = []
                 then seq (os_Setenv ''SDL_VIDEODRIVER'' ''x11'')
                      (bind (call_int P ''SDL_Init'' [C_Uint32 flags]) (\<lambda>c1.
                       let status = go_int_of c1 in
                       seq (if status \<noteq> 0 then os_Setenv ''SDL_VIDEODRIVER'' []
                            else return ())
                           (return status)))
                 else return status)
            else return status) (\<lambda>status.
      seq (Mutex_Unlock GlobalMutex)
          (return status))))"

definition Quit :: "'n platform \<Rightarrow> (unit, 'n) go" where
  "Quit P =
     seq (Mutex_Lock GlobalMutex)
     (bind get_currentVideoSurface (\<lambda>cur.
      seq (if cur \<noteq> None
           then seq (destroy cur) (set_currentVideoSurface None)
           else return ())
      (seq (call_void P ''SDL_Quit'' [])
           (Mutex_Unlock GlobalMutex))))"

definition InitSubSystem :: "'n platform \<Rightarrow> 32 word \<Rightarrow> (go_int, 'n) go" where
  "InitSubSystem P flags =
     seq (Mutex_Lock GlobalMutex)
     (bind (call_int P ''SDL_InitSubSystem'' [C_Uint32 flags]) (\<lambda>c0.
      bind (let status = go_int_of c0 in
            if status \<noteq> 0 \<and> GOOS P = ''darwin'' \<and> flags AND INIT_VIDEO P \<noteq> 0
            then bind (Getenv ''SDL_VIDEODRIVER'') (\<lambda>v.
                 if v = []
                 then seq (os_Setenv ''SDL_VIDEODRIVER'' ''x11'')
                      (bind (call_int P ''SDL_InitSubSystem'' [C_Uint32 flags]) (\<lambda>c1.
                       let status = go_int_of c1 in
                       seq (if status \<noteq> 0 then os_Setenv ''SDL_VIDEODRIVER'' []
                            else return ())
                           (return status)))
                 else return status)
            else return status) (\<lambda>status.
      seq (Mutex_Unlock GlobalMutex)
          (return status))))"

definition QuitSubSystem :: "'n platform \<Rightarrow> 32 word \<Rightarrow> (unit, 'n) go" where
  "QuitSubSystem P flags =
     seq (Mutex_Lock GlobalMutex)
     (seq (call_void P ''SDL_QuitSubSystem'' [C_Uint32 flags])
          (Mutex_Unlock GlobalMutex))"

definition WasInit :: "'n platform \<Rightarrow> 32 word \<Rightarrow> (go_int, 'n) go" where
  "WasInit P flags =
     seq (Mutex_Lock GlobalMutex)
     (bind (call_int P ''SDL_WasInit'' [C_Uint32 flags]) (\<lambda>c.
      seq (Mutex_Unlock GlobalMutex)
          (return (go_int_of c))))"

definition NumDisplayModes :: "'n platform \<Rightarrow> go_int \<Rightarrow> (go_int, 'n) go" where
  "NumDisplayModes P index =
     seq (Mutex_Lock GlobalMutex)
     (deferring (Mutex_Unlock GlobalMutex)
       (bind (call_int P ''SDL_GetNumDisplayModes'' [c_int index]) (\<lambda>c.
        return (go_int_of c))))"

definition GetError :: "'n platform \<Rightarrow> (string, 'n) go" where
  "GetError P =
     seq (Mutex_Lock GlobalMutex)
     (bind (call_str P ''SDL_GetError'' []) (\<lambda>s.
      seq (Mutex_Unlock GlobalMutex)
          (return s)))"

definition ClearError :: "'n platform \<Rightarrow> (unit, 'n) go" where
  "ClearError P =
     seq (Mutex_Lock GlobalMutex)
     (seq (call_void P ''SDL_ClearError'' [])
          (Mutex_Unlock GlobalMutex))"

section \<open>Package sdl: window\<close>

definition CreateWindow ::
  "'n platform \<Rightarrow> string \<Rightarrow> go_int \<Rightarrow> go_int \<Rightarrow> go_int \<Rightarrow> go_int \<Rightarrow> 32 word
     \<Rightarrow> (Window option, 'n) go" where
  "CreateWindow P title x y h w flags =
     seq (Mutex_Lock GlobalMutex)
     (deferring (Mutex_Unlock GlobalMutex)
       (bind (call_ptr P ''SDL_CreateWindow''
               [C_string title, c_int x, c_int y, c_int h, c_int w, C_Uint32 flags])
          (\<lambda>window.
        return (wrapWindow window))))"

text \<open>
  \<open>win\<close> and \<open>rend\<close> are declared and never assigned, so both are nil.  The last two
  arguments of the native call are \<open>&win.cWindow\<close> and \<open>&rend.cRenderer\<close>: evaluating
  them selects a field through the pointer, and the arguments are evaluated before
  the call is made.  (In the model the selected field stands for its address.)
\<close>

definition CreateWindowAndRenderer ::
  "'n platform \<Rightarrow> go_int \<Rightarrow> go_int \<Rightarrow> 32 word
     \<Rightarrow> (Window option \<times> Renderer option, 'n) go" where
  "CreateWindowAndRenderer P h w flags =
     (let win = (None :: Window option); rend = (None :: Renderer option) in
      seq (Mutex_Lock GlobalMutex)
      (deferring (Mutex_Unlock GlobalMutex)
        (bind (deref win) (\<lambda>win'.
         bind (deref rend) (\<lambda>rend'.
         seq (call_void P ''SDL_CreateWindowAndRenderer''
                [c_int h, c_int w, C_Uint32 flags,
                 C_ptr (cWindow win'), C_ptr (cRenderer rend')])
             (return (win, rend)))))))"

definition Window_GetTitle :: "'n platform \<Rightarrow> Window option \<Rightarrow> (string, 'n) go" where
  "Window_GetTitle P w =
     seq (Mutex_Lock GlobalMutex)
     (deferring (Mutex_Unlock GlobalMutex)
       (bind (deref w) (\<lambda>w'.
        call_str P ''SDL_GetWindowTitle'' [C_ptr (cWindow w')])))"

definition Window_SetTitle :: "'n platform \<Rightarrow> Window option \<Rightarrow> string \<Rightarrow> (unit, 'n) go" where
  "Window_SetTitle P w title =
     seq (Mutex_Lock GlobalMutex)
     (deferring (Mutex_Unlock GlobalMutex)
       (let ctitle = C_string title in
        bind (deref w) (\<lambda>w'.
        seq (call_void P ''SDL_SetWindowTitle'' [C_ptr (cWindow w'), ctitle])
            (emit (C_free ctitle)))))"

definition Window_SetIcon :: "'n platform \<Rightarrow> Window option \<Rightarrow> nat option \<Rightarrow> (unit, 'n) go" where
  "Window_SetIcon P w s =
     seq (Mutex_Lock GlobalMutex)
     (deferring (Mutex_Unlock GlobalMutex)
       (bind (deref w) (\<lambda>w'.
        bind (read_surface s) (\<lambda>s'.
        call_void P ''SDL_SetWindowIcon'' [C_ptr (cWindow w'), C_ptr (cSurface s')]))))"

definition Window_Destroy :: "'n platform \<Rightarrow> Window option \<Rightarrow> (unit, 'n) go" where
  "Window_Destroy P w =
     seq (Mutex_Lock GlobalMutex)
     (deferring (Mutex_Unlock GlobalMutex)
       (bind (deref w) (\<lambda>w'.
        call_void P ''SDL_DestroyWindow'' [C_ptr (cWindow w')])))"

section \<open>Package sdl: video and surfaces\<close>

definition GetVideoSurface :: "(nat option, 'n) go" where
  "GetVideoSurface =
     seq (Mutex_Lock GlobalMutex)
     (bind get_currentVideoSurface (\<lambda>surface.
      seq (Mutex_Unlock GlobalMutex)
          (return surface)))"

definition Window_GL_SwapWindow :: "'n platform \<Rightarrow> Window option \<Rightarrow> (unit, 'n) go" where
  "Window_GL_SwapWindow P w =
     seq (Mutex_Lock GlobalMutex)
     (bind (deref w) (\<lambda>w'.
      seq (call_void P ''SDL_GL_SwapWindow'' [C_ptr (cWindow w')])
          (Mutex_Unlock GlobalMutex)))"

definition GL_SetAttribute :: "'n platform \<Rightarrow> go_int \<Rightarrow> go_int \<Rightarrow> (go_int, 'n) go" where
  "GL_SetAttribute P attr val =
     seq (Mutex_Lock GlobalMutex)
     (bind (call_int P ''SDL_GL_SetAttribute'' [c_int attr, c_int val]) (\<lambda>c.
      seq (Mutex_Unlock GlobalMutex)
          (return (go_int_of c))))"

definition Free :: "'n platform \<Rightarrow> nat option \<Rightarrow> (unit, 'n) go" where
  "Free P screen =
     seq (Mutex_Lock GlobalMutex)
     (bind (surface_addr screen) (\<lambda>a.
      seq (Mutex_Lock (surface_mutex a))
      (bind (read_surface screen) (\<lambda>v.
       seq (call_void P ''SDL_FreeSurface'' [C_ptr (cSurface v)])
       (seq (destroy screen)
       (bind get_currentVideoSurface (\<lambda>cur.
        seq (if screen = cur then set_currentVideoSurface None else return ())
        (seq (Mutex_Unlock (surface_mutex a))
             (Mutex_Unlock GlobalMutex)))))))))"

definition Surface_Lock :: "'n platform \<Rightarrow> nat option \<Rightarrow> (go_int, 'n) go" where
  "Surface_Lock P screen =
     bind (surface_addr screen) (\<lambda>a.
     seq (Mutex_Lock (surface_mutex a))
     (bind (read_surface screen) (\<lambda>v.
      bind (call_int P ''SDL_LockSurface'' [C_ptr (cSurface v)]) (\<lambda>c.
      seq (Mutex_Unlock (surface_mutex a))
          (return (go_int_of c))))))"

definition Surface_Unlock :: "'n platform \<Rightarrow> nat option \<Rightarrow> (unit, 'n) go" where
  "Surface_Unlock P screen =
     bind (surface_addr screen) (\<lambda>a.
     seq (Mutex_Lock (surface_mutex a))
     (bind (read_surface screen) (\<lambda>v.
      seq (call_void P ''SDL_UnlockSurface'' [C_ptr (cSurface v)])
          (Mutex_Unlock (surface_mutex a)))))"

definition Blit ::
  "'n platform \<Rightarrow> nat option \<Rightarrow> cptr \<Rightarrow> nat option \<Rightarrow> cptr \<Rightarrow> (go_int, 'n) go" where
  "Blit P dst dstrect src srcrect =
     seq (Mutex_Lock GlobalMutex)
     (bind get_currentVideoSurface (\<lambda>cur.
      bind (if src \<noteq> cur \<and> dst \<noteq> cur
            then seq (Mutex_Unlock GlobalMutex) (return False)
            else return True) (\<lambda>global.
      bind (surface_addr src) (\<lambda>sa.
      seq (Mutex_RLock (surface_mutex sa))
      (bind (surface_addr dst) (\<lambda>da.
       seq (Mutex_Lock (surface_mutex da))
       (bind (read_surface src) (\<lambda>sv.
        bind (read_surface dst) (\<lambda>dv.
        bind (call_int P ''SDL_UpperBlit''
               [C_ptr (cSurface sv), C_ptr srcrect, C_ptr (cSurface dv), C_ptr dstrect])
          (\<lambda>ret.
        seq (Mutex_Unlock (surface_mutex da))
        (seq (Mutex_RUnlock (surface_mutex sa))
        (seq (if global then Mutex_Unlock GlobalMutex else return ())
             (return (go_int_of ret))))))))))))))"

definition BlitSurface ::
  "'n platform \<Rightarrow> nat option \<Rightarrow> cptr \<Rightarrow> nat option \<Rightarrow> cptr \<Rightarrow> (go_int, 'n) go" where
  "BlitSurface P src srcrect dst dstrect = Blit P dst dstrect src srcrect"

definition Surface_FillRect ::
  "'n platform \<Rightarrow> nat option \<Rightarrow> cptr \<Rightarrow> 32 word \<Rightarrow> (go_int, 'n) go" where
  "Surface_FillRect P dst dstrect color =
     bind (surface_addr dst) (\<lambda>a.
     seq (Mutex_Lock (surface_mutex a))
     (bind (read_surface dst) (\<lambda>v.
      bind (call_int P ''SDL_FillRect'' [C_ptr (cSurface v), C_ptr dstrect, C_Uint32 color])
        (\<lambda>ret.
      seq (Mutex_Unlock (surface_mutex a))
          (return (go_int_of ret))))))"

definition SetColorKey ::
  "'n platform \<Rightarrow> nat option \<Rightarrow> 32 word \<Rightarrow> 32 word \<Rightarrow> (go_int, 'n) go" where
  "SetColorKey P s flags ColorKey =
     bind (surface_addr s) (\<lambda>a.
     seq (Mutex_Lock (surface_mutex a))
     (bind (read_surface s) (\<lambda>v.
      bind (call_int P ''SDL_SetColorKey'' [C_ptr (cSurface v), C_int flags, C_Uint32 ColorKey])
        (\<lambda>c.
      seq (Mutex_Unlock (surface_mutex a))
          (return (go_int_of c))))))"

definition GetClipRect :: "'n platform \<Rightarrow> nat option \<Rightarrow> cptr \<Rightarrow> (unit, 'n) go" where
  "GetClipRect P s r =
     bind (surface_addr s) (\<lambda>a.
     seq (Mutex_RLock (surface_mutex a))
     (bind (read_surface s) (\<lambda>v.
      seq (call_void P ''SDL_GetClipRect'' [C_ptr (cSurface v), C_ptr r])
          (Mutex_RUnlock (surface_mutex a)))))"

definition SetClipRect :: "'n platform \<Rightarrow> nat option \<Rightarrow> cptr \<Rightarrow> (unit, 'n) go" where
  "SetClipRect P s r =
     bind (surface_addr s) (\<lambda>a.
     seq (Mutex_Lock (surface_mutex a))
     (bind (read_surface s) (\<lambda>v.
      seq (call_void P ''SDL_SetClipRect'' [C_ptr (cSurface v), C_ptr r])
          (Mutex_Unlock (surface_mutex a)))))"

definition MapRGBA ::
  "'n platform \<Rightarrow> cptr \<Rightarrow> 8 word \<Rightarrow> 8 word \<Rightarrow> 8 word \<Rightarrow> 8 word \<Rightarrow> (32 word, 'n) go" where
  "MapRGBA P format r g b a =
     bind (call_int P ''SDL_MapRGBA'' [C_ptr format, C_Uint8 r, C_Uint8 g, C_Uint8 b, C_Uint8 a])
       (\<lambda>c. return (go_uint32_of c))"

definition GetRGBA ::
  "'n platform \<Rightarrow> 32 word \<Rightarrow> cptr \<Rightarrow> cptr \<Rightarrow> cptr \<Rightarrow> cptr \<Rightarrow> cptr \<Rightarrow> (unit, 'n) go" where
  "GetRGBA P color format r g b a =
     call_void P ''SDL_GetRGBA'' [C_Uint32 color, C_ptr format, C_ptr r, C_ptr g, C_ptr b, C_ptr a]"

definition Load :: "'n platform \<Rightarrow> string \<Rightarrow> (nat option, 'n) go" where
  "Load P file =
     seq (Mutex_Lock GlobalMutex)
     (let cfile = C_string file in
      bind (call_ptr P ''IMG_Load'' [cfile]) (\<lambda>screen.
      seq (emit (C_free cfile))
      (seq (Mutex_Unlock GlobalMutex)
           (wrapSurface P screen))))"

definition CreateRGBSurface ::
  "'n platform \<Rightarrow> 32 word \<Rightarrow> go_int \<Rightarrow> go_int \<Rightarrow> go_int
     \<Rightarrow> 32 word \<Rightarrow> 32 word \<Rightarrow> 32 word \<Rightarrow> 32 word \<Rightarrow> (nat option, 'n) go" where
  "CreateRGBSurface P flags width height bpp Rmask Gmask Bmask Amask =
     seq (Mutex_Lock GlobalMutex)
     (bind (call_ptr P ''SDL_CreateRGBSurface''
             [C_Uint32 flags, c_int width, c_int height, c_int bpp,
              C_Uint32 Rmask, C_Uint32 Gmask, C_Uint32 Bmask, C_Uint32 Amask]) (\<lambda>p.
      seq (Mutex_Unlock GlobalMutex)
          (wrapSurface P p)))"

text \<open>\<open>reflect.ValueOf(pixels).Kind()\<close>: the kind of a nil interface is \<open>reflect.Invalid\<close>.\<close>

definition Kind :: "dynval option \<Rightarrow> kind" where
  "Kind pixels = (case pixels of None \<Rightarrow> reflect_Invalid | Some v \<Rightarrow> val_kind v)"

fun kind_String :: "kind \<Rightarrow> string" where
  "kind_String reflect_Invalid = ''invalid''"
| "kind_String reflect_Bool = ''bool''"
| "kind_String reflect_Int = ''int''"
| "kind_String reflect_Int8 = ''int8''"
| "kind_String reflect_Int16 = ''int16''"
| "kind_String reflect_Int32 = ''int32''"
| "kind_String reflect_Int64 = ''int64''"
| "kind_String reflect_Uint = ''uint''"
| "kind_String reflect_Uint8 = ''uint8''"
| "kind_String reflect_Uint16 = ''uint16''"
| "kind_String reflect_Uint32 = ''uint32''"
| "kind_String reflect_Uint64 = ''uint64''"
| "kind_String reflect_Uintptr = ''uintptr''"
| "kind_String reflect_Float32 = ''float32''"
| "kind_String reflect_Float64 = ''float64''"
| "kind_String reflect_Complex64 = ''complex64''"
| "kind_String reflect_Complex128 = ''complex128''"
| "kind_String reflect_Array = ''array''"
| "kind_String reflect_Chan = ''chan''"
| "kind_String reflect_Func = ''func''"
| "kind_String reflect_Interface = ''interface''"
| "kind_String reflect_Map = ''map''"
| "kind_String reflect_Ptr = ''ptr''"
| "kind_String reflect_Slice = ''slice''"
| "kind_String reflect_String = ''string''"
| "kind_String reflect_Struct = ''struct''"
| "kind_String reflect_UnsafePointer = ''unsafe.Pointer''"

definition the_Pointer :: "dynval option \<Rightarrow> cptr" where
  "the_Pointer pixels = (case pixels of None \<Rightarrow> 0 | Some v \<Rightarrow> val_pointer v)"

text \<open>The pointer check that cgo makes on a pointer argument before it enters C: it
  panics when the pointer points to Go memory that holds a Go pointer.  The argument
  here is the pointer taken out of \<open>pixels\<close>, whatever the caller passed.\<close>

definition holds_go_pointer :: "dynval option \<Rightarrow> bool" where
  "holds_go_pointer pixels =
     (case pixels of None \<Rightarrow> False | Some v \<Rightarrow> val_holds_go_pointer v)"

definition cgoCheckPointer :: "dynval option \<Rightarrow> (unit, 'n) go" where
  "cgoCheckPointer pixels =
     (if holds_go_pointer pixels then raise cgo_pointer_panic else return ())"

definition CreateRGBSurfaceFrom ::
  "'n platform \<Rightarrow> dynval option \<Rightarrow> go_int \<Rightarrow> go_int \<Rightarrow> go_int \<Rightarrow> go_int
     \<Rightarrow> 32 word \<Rightarrow> 32 word \<Rightarrow> 32 word \<Rightarrow> 32 word \<Rightarrow> (nat option, 'n) go" where
  "CreateRGBSurfaceFrom P pixels width height bpp pitch Rmask Gmask Bmask Amask =
     bind (if Kind pixels = reflect_Ptr \<or> Kind pixels = reflect_UnsafePointer
              \<or> Kind pixels = reflect_Slice
           then return (the_Pointer pixels)
           else raise (panic_string
                  (''Don'' @ [CHR 0x27] @ ''t know how to handle type: ''
                   @ kind_String (Kind pixels))))
       (\<lambda>ptr.
     seq (Mutex_Lock GlobalMutex)
     (seq (cgoCheckPointer pixels)
     (bind (call_ptr P ''SDL_CreateRGBSurfaceFrom''
             [C_ptr ptr, c_int width, c_int height, c_int bpp, c_int pitch,
              C_Uint32 Rmask, C_Uint32 Gmask, C_Uint32 Bmask, C_Uint32 Amask]) (\<lambda>p.
      seq (Mutex_Unlock GlobalMutex)
      (bind (wrapSurface P p) (\<lambda>s.
       bind (read_surface s) (\<lambda>v.
       bind (surface_addr s) (\<lambda>a.
       seq (write_surface a (v\<lparr>gcPixels := pixels\<rparr>))
           (return s)))))))))"

section \<open>Package sdl: keys, events, mouse, joystick, time\<close>

definition GetKeyName :: "'n platform \<Rightarrow> 32 word \<Rightarrow> (string, 'n) go" where
  "GetKeyName P key =
     seq (Mutex_Lock GlobalMutex)
     (bind (call_str P ''SDL_GetKeyName'' [C_int key]) (\<lambda>name.
      seq (Mutex_Unlock GlobalMutex)
          (return name)))"

definition poll :: "'n platform \<Rightarrow> cptr \<Rightarrow> (bool, 'n) go" where
  "poll P event =
     seq (Mutex_Lock GlobalMutex)
     (bind (call_int P ''SDL_PollEvent'' [C_ptr event]) (\<lambda>ret.
      seq (Mutex_Unlock GlobalMutex)
          (return (ret \<noteq> 0))))"

definition GetMouseState :: "'n platform \<Rightarrow> cptr \<Rightarrow> cptr \<Rightarrow> (8 word, 'n) go" where
  "GetMouseState P x y =
     seq (Mutex_Lock GlobalMutex)
     (bind (call_int P ''SDL_GetMouseState'' [C_ptr x, C_ptr y]) (\<lambda>c.
      seq (Mutex_Unlock GlobalMutex)
          (return (go_uint8_of c))))"

definition GetRelativeMouseState :: "'n platform \<Rightarrow> cptr \<Rightarrow> cptr \<Rightarrow> (8 word, 'n) go" where
  "GetRelativeMouseState P x y =
     seq (Mutex_Lock GlobalMutex)
     (bind (call_int P ''SDL_GetRelativeMouseState'' [C_ptr x, C_ptr y]) (\<lambda>c.
      seq (Mutex_Unlock GlobalMutex)
          (return (go_uint8_of c))))"

definition ShowCursor :: "'n platform \<Rightarrow> go_int \<Rightarrow> (go_int, 'n) go" where
  "ShowCursor P toggle =
     seq (Mutex_Lock GlobalMutex)
     (bind (call_int P ''SDL_ShowCursor'' [c_int toggle]) (\<lambda>c.
      seq (Mutex_Unlock GlobalMutex)
          (return (go_int_of c))))"

definition NumJoysticks :: "'n platform \<Rightarrow> (go_int, 'n) go" where
  "NumJoysticks P =
     seq (Mutex_Lock GlobalMutex)
     (bind (call_int P ''SDL_NumJoysticks'' []) (\<lambda>c.
      seq (Mutex_Unlock GlobalMutex)
          (return (go_int_of c))))"

definition JoystickOpen :: "'n platform \<Rightarrow> go_int \<Rightarrow> (Joystick option, 'n) go" where
  "JoystickOpen P deviceIndex =
     seq (Mutex_Lock GlobalMutex)
     (bind (call_ptr P ''SDL_JoystickOpen'' [c_int deviceIndex]) (\<lambda>joystick.
      seq (Mutex_Unlock GlobalMutex)
          (return (wrapJoystick joystick))))"

definition JoystickUpdate :: "'n platform \<Rightarrow> (unit, 'n) go" where
  "JoystickUpdate P =
     seq (Mutex_Lock GlobalMutex)
     (seq (call_void P ''SDL_JoystickUpdate'' [])
          (Mutex_Unlock GlobalMutex))"

definition JoystickEventState :: "'n platform \<Rightarrow> go_int \<Rightarrow> (go_int, 'n) go" where
  "JoystickEventState P state =
     seq (Mutex_Lock GlobalMutex)
     (bind (call_int P ''SDL_JoystickEventState'' [c_int state]) (\<lambda>c.
      seq (Mutex_Unlock GlobalMutex)
          (return (go_int_of c))))"

definition Joystick_Close :: "'n platform \<Rightarrow> Joystick option \<Rightarrow> (unit, 'n) go" where
  "Joystick_Close P joystick =
     seq (Mutex_Lock GlobalMutex)
     (bind (deref joystick) (\<lambda>j.
      seq (call_void P ''SDL_JoystickClose'' [C_ptr (cJoystick j)])
          (Mutex_Unlock GlobalMutex)))"

definition NumAxes :: "'n platform \<Rightarrow> Joystick option \<Rightarrow> (go_int, 'n) go" where
  "NumAxes P joystick =
     bind (deref joystick) (\<lambda>j.
     bind (call_int P ''SDL_JoystickNumAxes'' [C_ptr (cJoystick j)]) (\<lambda>c.
     return (go_int_of c)))"

definition NumButtons :: "'n platform \<Rightarrow> Joystick option \<Rightarrow> (go_int, 'n) go" where
  "NumButtons P joystick =
     bind (deref joystick) (\<lambda>j.
     bind (call_int P ''SDL_JoystickNumButtons'' [C_ptr (cJoystick j)]) (\<lambda>c.
     return (go_int_of c)))"

definition NumBalls :: "'n platform \<Rightarrow> Joystick option \<Rightarrow> (go_int, 'n) go" where
  "NumBalls P joystick =
     bind (deref joystick) (\<lambda>j.
     bind (call_int P ''SDL_JoystickNumBalls'' [C_ptr (cJoystick j)]) (\<lambda>c.
     return (go_int_of c)))"

definition NumHats :: "'n platform \<Rightarrow> Joystick option \<Rightarrow> (go_int, 'n) go" where
  "NumHats P joystick =
     bind (deref joystick) (\<lambda>j.
     bind (call_int P ''SDL_JoystickNumHats'' [C_ptr (cJoystick j)]) (\<lambda>c.
     return (go_int_of c)))"

definition GetHat :: "'n platform \<Rightarrow> Joystick option \<Rightarrow> go_int \<Rightarrow> (8 word, 'n) go" where
  "GetHat P joystick hat =
     bind (deref joystick) (\<lambda>j.
     bind (call_int P ''SDL_JoystickGetHat'' [C_ptr (cJoystick j), c_int hat]) (\<lambda>c.
     return (go_uint8_of c)))"

definition GetButton :: "'n platform \<Rightarrow> Joystick option \<Rightarrow> go_int \<Rightarrow> (8 word, 'n) go" where
  "GetButton P joystick button =
     bind (deref joystick) (\<lambda>j.
     bind (call_int P ''SDL_JoystickGetButton'' [C_ptr (cJoystick j), c_int button]) (\<lambda>c.
     return (go_uint8_of c)))"

definition GetBall ::
  "'n platform \<Rightarrow> Joystick option \<Rightarrow> go_int \<Rightarrow> cptr \<Rightarrow> cptr \<Rightarrow> (go_int, 'n) go" where
  "GetBall P joystick ball dx dy =
     bind (deref joystick) (\<lambda>j.
     bind (call_int P ''SDL_JoystickGetBall''
            [C_ptr (cJoystick j), c_int ball, C_ptr dx, C_ptr dy]) (\<lambda>c.
     return (go_int_of c)))"

definition GetAxis :: "'n platform \<Rightarrow> Joystick option \<Rightarrow> go_int \<Rightarrow> (16 word, 'n) go" where
  "GetAxis P joystick axis =
     bind (deref joystick) (\<lambda>j.
     bind (call_int P ''SDL_JoystickGetAxis'' [C_ptr (cJoystick j), c_int axis]) (\<lambda>c.
     return (go_int16_of c)))"

definition GetTicks :: "'n platform \<Rightarrow> (32 word, 'n) go" where
  "GetTicks P =
     seq (Mutex_Lock GlobalMutex)
     (bind (call_int P ''SDL_GetTicks'' []) (\<lambda>c.
      seq (Mutex_Unlock GlobalMutex)
          (return (go_uint32_of c))))"

text \<open>\<open>time.Duration(ms) * time.Millisecond\<close>, in nanoseconds.\<close>

definition Delay :: "32 word \<Rightarrow> (unit, 'n) go" where
  "Delay ms = emit (Sleep (ucast ms * 1000000))"

section \<open>Package mixer: chunks\<close>

definition LoadWAV :: "'n platform \<Rightarrow> string \<Rightarrow> (Chunk option, 'n) go" where
  "LoadWAV P file =
     (let cfile = C_string file; rb = C_string ''rb'' in
      bind (call_ptr P ''SDL_RWFromFile'' [cfile, rb]) (\<lambda>rw.
      bind (call_ptr P ''Mix_LoadWAV_RW'' [C_ptr rw, C_int 1]) (\<lambda>c.
      seq (emit (C_free cfile))
      (seq (emit (C_free rb))
      (if c = 0 then return None else return (Some \<lparr>cchunk = c\<rparr>))))))"

definition Chunk_Free :: "'n platform \<Rightarrow> Chunk option \<Rightarrow> (unit, 'n) go" where
  "Chunk_Free P c =
     bind (deref c) (\<lambda>c'. call_void P ''Mix_FreeChunk'' [C_ptr (cchunk c')])"

definition Volume :: "'n platform \<Rightarrow> Chunk option \<Rightarrow> go_int \<Rightarrow> (go_int, 'n) go" where
  "Volume P c volume =
     bind (deref c) (\<lambda>c'.
     bind (call_int P ''Mix_VolumeChunk'' [C_ptr (cchunk c'), c_int volume]) (\<lambda>r.
     return (go_int_of r)))"

definition PlayChannelTimed ::
  "'n platform \<Rightarrow> Chunk option \<Rightarrow> go_int \<Rightarrow> go_int \<Rightarrow> go_int \<Rightarrow> (go_int, 'n) go" where
  "PlayChannelTimed P c channel loops ticks =
     bind (deref c) (\<lambda>c'.
     bind (call_int P ''Mix_PlayChannelTimed''
            [c_int channel, C_ptr (cchunk c'), c_int loops, c_int ticks]) (\<lambda>r.
     return (go_int_of r)))"

definition PlayChannel ::
  "'n platform \<Rightarrow> Chunk option \<Rightarrow> go_int \<Rightarrow> go_int \<Rightarrow> (go_int, 'n) go" where
  "PlayChannel P c channel loops = PlayChannelTimed P c channel loops (- 1)"

definition FadeInChannelTimed ::
  "'n platform \<Rightarrow> Chunk option \<Rightarrow> go_int \<Rightarrow> go_int \<Rightarrow> go_int \<Rightarrow> go_int \<Rightarrow> (go_int, 'n) go" where
  "FadeInChannelTimed P c channel loops ms ticks =
     bind (deref c) (\<lambda>c'.
     bind (call_int P ''Mix_FadeInChannelTimed''
            [c_int channel, C_ptr (cchunk c'), c_int loops, c_int ms, c_int ticks]) (\<lambda>r.
     return (go_int_of r)))"

definition FadeInChannel ::
  "'n platform \<Rightarrow> Chunk option \<Rightarrow> go_int \<Rightarrow> go_int \<Rightarrow> go_int \<Rightarrow> (go_int, 'n) go" where
  "FadeInChannel P c channel loops ms = FadeInChannelTimed P c channel loops ms (- 1)"

definition GetChunk :: "'n platform \<Rightarrow> go_int \<Rightarrow> (Chunk option, 'n) go" where
  "GetChunk P channel =
     bind (call_ptr P ''Mix_GetChunk'' [c_int channel]) (\<lambda>out.
     if out = 0 then return None else return (Some \<lparr>cchunk = out\<rparr>))"

section \<open>Every exported operation, as one call\<close>

text \<open>
  A call of an exported function or method of the two packages (and of the
  unexported \<open>Event.poll\<close>), with its arguments, grouped as the source groups them.
  The \<open>run\<close> functions make the call and keep how it ended (\<open>None\<close>: it returned) and
  the state it left; the value returned is dropped.
\<close>

definition ending :: "('a, 'n) go \<Rightarrow> 'n world \<Rightarrow> stop option \<times> 'n world" where
  "ending m s = (case m s of (Inl e, s') \<Rightarrow> (Some e, s') | (Inr x, s') \<Rightarrow> (None, s'))"

datatype renderer_op =
    op_CreateRenderer "Window option" go_int "32 word"
  | op_Renderer_Clear "Renderer option"
  | op_Renderer_Copy "Renderer option" "Texture option" cptr cptr
  | op_Renderer_Present "Renderer option"
  | op_Renderer_SetDrawColor "Renderer option" Color
  | op_Renderer_FillRect "Renderer option" cptr
  | op_Renderer_Destroy "Renderer option"
  | op_CreateTextureFromSurface "Renderer option" "nat option"
  | op_Texture_Destroy "Texture option"

primrec run_renderer :: "'n platform \<Rightarrow> renderer_op \<Rightarrow> 'n world \<Rightarrow> stop option \<times> 'n world" where
  "run_renderer P (op_CreateRenderer w i f) = ending (CreateRenderer P w i f)"
| "run_renderer P (op_Renderer_Clear r) = ending (Renderer_Clear P r)"
| "run_renderer P (op_Renderer_Copy r t src dst) = ending (Renderer_Copy P r t src dst)"
| "run_renderer P (op_Renderer_Present r) = ending (Renderer_Present P r)"
| "run_renderer P (op_Renderer_SetDrawColor r c) = ending (Renderer_SetDrawColor P r c)"
| "run_renderer P (op_Renderer_FillRect r rect) = ending (Renderer_FillRect P r rect)"
| "run_renderer P (op_Renderer_Destroy r) = ending (Renderer_Destroy P r)"
| "run_renderer P (op_CreateTextureFromSurface r s) = ending (CreateTextureFromSurface P r s)"
| "run_renderer P (op_Texture_Destroy t) = ending (Texture_Destroy P t)"

datatype general_op =
    op_GoSdlVersion
  | op_Init "32 word"
  | op_Quit
  | op_InitSubSystem "32 word"
  | op_QuitSubSystem "32 word"
  | op_WasInit "32 word"
  | op_NumDisplayModes go_int
  | op_GetError
  | op_ClearError

primrec run_general :: "'n platform \<Rightarrow> general_op \<Rightarrow> 'n world \<Rightarrow> stop option \<times> 'n world" where
  "run_general P op_GoSdlVersion = ending GoSdlVersion"
| "run_general P (op_Init f) = ending (Init P f)"
| "run_general P op_Quit = ending (Quit P)"
| "run_general P (op_InitSubSystem f) = ending (InitSubSystem P f)"
| "run_general P (op_QuitSubSystem f) = ending (QuitSubSystem P f)"
| "run_general P (op_WasInit f) = ending (WasInit P f)"
| "run_general P (op_NumDisplayModes i) = ending (NumDisplayModes P i)"
| "run_general P op_GetError = ending (GetError P)"
| "run_general P op_ClearError = ending (ClearError P)"

datatype window_op =
    op_SetCWindow "Window option" cptr
  | op_CreateWindow string go_int go_int go_int go_int "32 word"
  | op_CreateWindowAndRenderer go_int go_int "32 word"
  | op_Window_GetTitle "Window option"
  | op_Window_SetTitle "Window option" string
  | op_Window_SetIcon "Window option" "nat option"
  | op_Window_Destroy "Window option"
  | op_Window_GL_SwapWindow "Window option"
  | op_GL_SetAttribute go_int go_int

primrec run_window :: "'n platform \<Rightarrow> window_op \<Rightarrow> 'n world \<Rightarrow> stop option \<times> 'n world" where
  "run_window P (op_SetCWindow w c) = ending (SetCWindow w c)"
| "run_window P (op_CreateWindow title x y h w f) = ending (CreateWindow P title x y h w f)"
| "run_window P (op_CreateWindowAndRenderer h w f) = ending (CreateWindowAndRenderer P h w f)"
| "run_window P (op_Window_GetTitle w) = ending (Window_GetTitle P w)"
| "run_window P (op_Window_SetTitle w title) = ending (Window_SetTitle P w title)"
| "run_window P (op_Window_SetIcon w s) = ending (Window_SetIcon P w s)"
| "run_window P (op_Window_Destroy w) = ending (Window_Destroy P w)"
| "run_window P (op_Window_GL_SwapWindow w) = ending (Window_GL_SwapWindow P w)"
| "run_window P (op_GL_SetAttribute a v) = ending (GL_SetAttribute P a v)"

datatype surface_op =
    op_SetCSurface "nat option" cptr
  | op_GetVideoSurface
  | op_Free "nat option"
  | op_Surface_Lock "nat option"
  | op_Surface_Unlock "nat option"
  | op_Blit "nat option" cptr "nat option" cptr
  | op_BlitSurface "nat option" cptr "nat option" cptr
  | op_Surface_FillRect "nat option" cptr "32 word"
  | op_SetColorKey "nat option" "32 word" "32 word"
  | op_GetClipRect "nat option" cptr
  | op_SetClipRect "nat option" cptr
  | op_MapRGBA cptr "8 word" "8 word" "8 word" "8 word"
  | op_GetRGBA "32 word" cptr cptr cptr cptr cptr
  | op_Load string
  | op_CreateRGBSurface "32 word" go_int go_int go_int "32 word" "32 word" "32 word" "32 word"
  | op_CreateRGBSurfaceFrom "dynval option" go_int go_int go_int go_int "32 word" "32 word" "32 word" "32 word"

primrec run_surface :: "'n platform \<Rightarrow> surface_op \<Rightarrow> 'n world \<Rightarrow> stop option \<times> 'n world" where
  "run_surface P (op_SetCSurface s c) = ending (SetCSurface P s c)"
| "run_surface P op_GetVideoSurface = ending GetVideoSurface"
| "run_surface P (op_Free s) = ending (Free P s)"
| "run_surface P (op_Surface_Lock s) = ending (Surface_Lock P s)"
| "run_surface P (op_Surface_Unlock s) = ending (Surface_Unlock P s)"
| "run_surface P (op_Blit dst dstrect src srcrect) = ending (Blit P dst dstrect src srcrect)"
| "run_surface P (op_BlitSurface src srcrect dst dstrect) = ending (BlitSurface P src srcrect dst dstrect)"
| "run_surface P (op_Surface_FillRect dst r c) = ending (Surface_FillRect P dst r c)"
| "run_surface P (op_SetColorKey s f k) = ending (SetColorKey P s f k)"
| "run_surface P (op_GetClipRect s r) = ending (GetClipRect P s r)"
| "run_surface P (op_SetClipRect s r) = ending (SetClipRect P s r)"
| "run_surface P (op_MapRGBA format r g b a) = ending (MapRGBA P format r g b a)"
| "run_surface P (op_GetRGBA color format r g b a) = ending (GetRGBA P color format r g b a)"
| "run_surface P (op_Load file) = ending (Load P file)"
| "run_surface P (op_CreateRGBSurface f w h bpp rm gm bm am) = ending (CreateRGBSurface P f w h bpp rm gm bm am)"
| "run_surface P (op_CreateRGBSurfaceFrom pixels w h bpp pitch rm gm bm am) = ending (CreateRGBSurfaceFrom P pixels w h bpp pitch rm gm bm am)"

datatype input_op =
    op_GetKeyName "32 word"
  | op_poll cptr
  | op_GetMouseState cptr cptr
  | op_GetRelativeMouseState cptr cptr
  | op_ShowCursor go_int
  | op_GetTicks
  | op_Delay "32 word"

primrec run_input :: "'n platform \<Rightarrow> input_op \<Rightarrow> 'n world \<Rightarrow> stop option \<times> 'n world" where
  "run_input P (op_GetKeyName k) = ending (GetKeyName P k)"
| "run_input P (op_poll e) = ending (poll P e)"
| "run_input P (op_GetMouseState x y) = ending (GetMouseState P x y)"
| "run_input P (op_GetRelativeMouseState x y) = ending (GetRelativeMouseState P x y)"
| "run_input P (op_ShowCursor t) = ending (ShowCursor P t)"
| "run_input P op_GetTicks = ending (GetTicks P)"
| "run_input P (op_Delay ms) = ending (Delay ms)"

datatype joystick_op =
    op_NumJoysticks
  | op_JoystickOpen go_int
  | op_JoystickUpdate
  | op_JoystickEventState go_int
  | op_Joystick_Close "Joystick option"
  | op_NumAxes "Joystick option"
  | op_NumButtons "Joystick option"
  | op_NumBalls "Joystick option"
  | op_NumHats "Joystick option"
  | op_GetHat "Joystick option" go_int
  | op_GetButton "Joystick option" go_int
  | op_GetBall "Joystick option" go_int cptr cptr
  | op_GetAxis "Joystick option" go_int

primrec run_joystick :: "'n platform \<Rightarrow> joystick_op \<Rightarrow> 'n world \<Rightarrow> stop option \<times> 'n world" where
  "run_joystick P op_NumJoysticks = ending (NumJoysticks P)"
| "run_joystick P (op_JoystickOpen i) = ending (JoystickOpen P i)"
| "run_joystick P op_JoystickUpdate = ending (JoystickUpdate P)"
| "run_joystick P (op_JoystickEventState st) = ending (JoystickEventState P st)"
| "run_joystick P (op_Joystick_Close j) = ending (Joystick_Close P j)"
| "run_joystick P (op_NumAxes j) = ending (NumAxes P j)"
| "run_joystick P (op_NumButtons j) = ending (NumButtons P j)"
| "run_joystick P (op_NumBalls j) = ending (NumBalls P j)"
| "run_joystick P (op_NumHats j) = ending (NumHats P j)"
| "run_joystick P (op_GetHat j h) = ending (GetHat P j h)"
| "run_joystick P (op_GetButton j b) = ending (GetButton P j b)"
| "run_joystick P (op_GetBall j b dx dy) = ending (GetBall P j b dx dy)"
| "run_joystick P (op_GetAxis j a) = ending (GetAxis P j a)"

datatype mixer_op =
    op_LoadWAV string
  | op_Chunk_Free "Chunk option"
  | op_Volume "Chunk option" go_int
  | op_PlayChannel "Chunk option" go_int go_int
  | op_PlayChannelTimed "Chunk option" go_int go_int go_int
  | op_FadeInChannel "Chunk option" go_int go_int go_int
  | op_FadeInChannelTimed "Chunk option" go_int go_int go_int go_int
  | op_GetChunk go_int

primrec run_mixer :: "'n platform \<Rightarrow> mixer_op \<Rightarrow> 'n world \<Rightarrow> stop option \<times> 'n world" where
  "run_mixer P (op_LoadWAV file) = ending (LoadWAV P file)"
| "run_mixer P (op_Chunk_Free c) = ending (Chunk_Free P c)"
| "run_mixer P (op_Volume c v) = ending (Volume P c v)"
| "run_mixer P (op_PlayChannel c ch l) = ending (PlayChannel P c ch l)"
| "run_mixer P (op_PlayChannelTimed c ch l t) = ending (PlayChannelTimed P c ch l t)"
| "run_mixer P (op_FadeInChannel c ch l ms) = ending (FadeInChannel P c ch l ms)"
| "run_mixer P (op_FadeInChannelTimed c ch l ms t) = ending (FadeInChannelTimed P c ch l ms t)"
| "run_mixer P (op_GetChunk ch) = ending (GetChunk P ch)"

datatype operation =
    renderer renderer_op
  | general general_op
  | window window_op
  | surface surface_op
  | input input_op
  | joystick joystick_op
  | mixer mixer_op

primrec run :: "'n platform \<Rightarrow> operation \<Rightarrow> 'n world \<Rightarrow> stop option \<times> 'n world" where
  "run P (renderer c) = run_renderer P c"
| "run P (general c) = run_general P c"
| "run P (window c) = run_window P c"
| "run P (surface c) = run_surface P c"
| "run P (input c) = run_input P c"
| "run P (joystick c) = run_joystick P c"
| "run P (mixer c) = run_mixer P c"

section \<open>What a call did: the events it added\<close>

definition new_events :: "'n world \<Rightarrow> 'n world \<Rightarrow> event list" where
  "new_events s s' = drop (length (trace s)) (trace s')"

fun is_native :: "event \<Rightarrow> bool" where
  "is_native (Native f args) = True"
| "is_native e = False"


fun mutex_of :: "event \<Rightarrow> mutex option" where
  "mutex_of (Lock m) = Some m"
| "mutex_of (Unlock m) = Some m"
| "mutex_of (RLock m) = Some m"
| "mutex_of (RUnlock m) = Some m"
| "mutex_of e = None"

text \<open>The native calls among the events, in order.\<close>

definition natives :: "event list \<Rightarrow> event list" where
  "natives es = filter is_native es"


text \<open>The mutexes the events touch.\<close>

definition mutexes :: "event list \<Rightarrow> mutex set" where
  "mutexes es = set (List.map_filter mutex_of es)"

text \<open>Whether the caller holds \<open>GlobalMutex\<close> after an event, given whether it held it
  before; and, for each native call among the events, whether it is made while the
  caller holds \<open>GlobalMutex\<close>.\<close>

fun holds_after :: "bool \<Rightarrow> event \<Rightarrow> bool" where
  "holds_after h (Lock GlobalMutex) = True"
| "holds_after h (Unlock GlobalMutex) = False"
| "holds_after h e = h"

fun GlobalMutex_at_calls :: "bool \<Rightarrow> event list \<Rightarrow> bool list" where
  "GlobalMutex_at_calls h [] = []"
| "GlobalMutex_at_calls h (e # es) =
     (if is_native e then [h] else []) @ GlobalMutex_at_calls (holds_after h e) es"

definition under_GlobalMutex :: "event list \<Rightarrow> bool" where
  "under_GlobalMutex es = list_all (\<lambda>h. h) (GlobalMutex_at_calls False es)"

text \<open>No mutex is held: the state between two calls of a caller that leaked none.\<close>

definition all_free :: "'n world \<Rightarrow> bool" where
  "all_free s = (held s = (\<lambda>m. free))"











text \<open>A call that led from \<open>s\<close> to the outcome \<open>r\<close> is serialized when it entered the
  native library only while holding \<open>GlobalMutex\<close> and, if it returned, left
  \<open>GlobalMutex\<close> free.\<close>

definition serialized :: "'n world \<Rightarrow> stop option \<times> 'n world \<Rightarrow> bool" where
  "serialized s r =
     (under_GlobalMutex (new_events s (snd r))
      \<and> (if fst r = None then held (snd r) GlobalMutex = free else True))"

text \<open>A wrapper result \<open>r\<close> reports the native handle \<open>h\<close>: it is nil exactly when \<open>h\<close>
  is \<open>NULL\<close>, and otherwise the wrapper holds \<open>h\<close>.\<close>

definition wraps_handle :: "cptr \<Rightarrow> 'w option \<Rightarrow> ('w \<Rightarrow> cptr) \<Rightarrow> bool" where
  "wraps_handle h r handle =
     ((r = None) = (h = 0) \<and> (case r of None \<Rightarrow> True | Some v \<Rightarrow> handle v = h))"


section \<open>Programs: sequences of calls\<close>

text \<open>
  The state at program start: \<open>currentVideoSurface\<close> is declared \<open>nil\<close>, no mutex is
  held, nothing has been allocated, and no environment variable is set (\<open>os.Getenv\<close>
  gives the empty string).  A program is a list of steps: a call, or a change the
  native library makes to its own state between two calls (input arrives, time
  passes).  A call that panics is not recovered from (the binding has no \<open>recover\<close>),
  so the program goes on only after a call that returned.
\<close>

definition startup :: "'n \<Rightarrow> 'n world" where
  "startup n = \<lparr>native = n, trace = [], held = (\<lambda>m. free), environ = (\<lambda>k. []),
     surfaces = [], currentVideoSurface = None\<rparr>"



section \<open>Which operations take which mutex\<close>

text \<open>The operations whose body takes \<open>GlobalMutex\<close> around what it does.\<close>

primrec general_takes_GlobalMutex :: "general_op \<Rightarrow> bool" where
  "general_takes_GlobalMutex op_GoSdlVersion = False"
| "general_takes_GlobalMutex (op_Init f) = True"
| "general_takes_GlobalMutex op_Quit = True"
| "general_takes_GlobalMutex (op_InitSubSystem f) = True"
| "general_takes_GlobalMutex (op_QuitSubSystem f) = True"
| "general_takes_GlobalMutex (op_WasInit f) = True"
| "general_takes_GlobalMutex (op_NumDisplayModes i) = True"
| "general_takes_GlobalMutex op_GetError = True"
| "general_takes_GlobalMutex op_ClearError = True"

primrec window_takes_GlobalMutex :: "window_op \<Rightarrow> bool" where
  "window_takes_GlobalMutex (op_SetCWindow w c) = False"
| "window_takes_GlobalMutex (op_CreateWindow title x y h w f) = True"
| "window_takes_GlobalMutex (op_CreateWindowAndRenderer h w f) = True"
| "window_takes_GlobalMutex (op_Window_GetTitle w) = True"
| "window_takes_GlobalMutex (op_Window_SetTitle w title) = True"
| "window_takes_GlobalMutex (op_Window_SetIcon w s) = True"
| "window_takes_GlobalMutex (op_Window_Destroy w) = True"
| "window_takes_GlobalMutex (op_Window_GL_SwapWindow w) = True"
| "window_takes_GlobalMutex (op_GL_SetAttribute a v) = True"

primrec surface_takes_GlobalMutex :: "surface_op \<Rightarrow> bool" where
  "surface_takes_GlobalMutex (op_SetCSurface s c) = False"
| "surface_takes_GlobalMutex op_GetVideoSurface = True"
| "surface_takes_GlobalMutex (op_Free s) = True"
| "surface_takes_GlobalMutex (op_Surface_Lock s) = False"
| "surface_takes_GlobalMutex (op_Surface_Unlock s) = False"
| "surface_takes_GlobalMutex (op_Blit dst dstrect src srcrect) = False"
| "surface_takes_GlobalMutex (op_BlitSurface src srcrect dst dstrect) = False"
| "surface_takes_GlobalMutex (op_Surface_FillRect dst r c) = False"
| "surface_takes_GlobalMutex (op_SetColorKey s f k) = False"
| "surface_takes_GlobalMutex (op_GetClipRect s r) = False"
| "surface_takes_GlobalMutex (op_SetClipRect s r) = False"
| "surface_takes_GlobalMutex (op_MapRGBA format r g b a) = False"
| "surface_takes_GlobalMutex (op_GetRGBA color format r g b a) = False"
| "surface_takes_GlobalMutex (op_Load file) = True"
| "surface_takes_GlobalMutex (op_CreateRGBSurface f w h bpp rm gm bm am) = True"
| "surface_takes_GlobalMutex (op_CreateRGBSurfaceFrom pixels w h bpp pitch rm gm bm am) = True"

primrec input_takes_GlobalMutex :: "input_op \<Rightarrow> bool" where
  "input_takes_GlobalMutex (op_GetKeyName k) = True"
| "input_takes_GlobalMutex (op_poll e) = True"
| "input_takes_GlobalMutex (op_GetMouseState x y) = True"
| "input_takes_GlobalMutex (op_GetRelativeMouseState x y) = True"
| "input_takes_GlobalMutex (op_ShowCursor t) = True"
| "input_takes_GlobalMutex op_GetTicks = True"
| "input_takes_GlobalMutex (op_Delay ms) = False"

primrec joystick_takes_GlobalMutex :: "joystick_op \<Rightarrow> bool" where
  "joystick_takes_GlobalMutex op_NumJoysticks = True"
| "joystick_takes_GlobalMutex (op_JoystickOpen i) = True"
| "joystick_takes_GlobalMutex op_JoystickUpdate = True"
| "joystick_takes_GlobalMutex (op_JoystickEventState st) = True"
| "joystick_takes_GlobalMutex (op_Joystick_Close j) = True"
| "joystick_takes_GlobalMutex (op_NumAxes j) = False"
| "joystick_takes_GlobalMutex (op_NumButtons j) = False"
| "joystick_takes_GlobalMutex (op_NumBalls j) = False"
| "joystick_takes_GlobalMutex (op_NumHats j) = False"
| "joystick_takes_GlobalMutex (op_GetHat j h) = False"
| "joystick_takes_GlobalMutex (op_GetButton j b) = False"
| "joystick_takes_GlobalMutex (op_GetBall j b dx dy) = False"
| "joystick_takes_GlobalMutex (op_GetAxis j a) = False"

primrec takes_GlobalMutex :: "operation \<Rightarrow> bool" where
  "takes_GlobalMutex (renderer c) = True"
| "takes_GlobalMutex (general c) = general_takes_GlobalMutex c"
| "takes_GlobalMutex (window c) = window_takes_GlobalMutex c"
| "takes_GlobalMutex (surface c) = surface_takes_GlobalMutex c"
| "takes_GlobalMutex (input c) = input_takes_GlobalMutex c"
| "takes_GlobalMutex (joystick c) = joystick_takes_GlobalMutex c"
| "takes_GlobalMutex (mixer c) = False"



section \<open>A sample platform\<close>

text \<open>
  A native library to run the operations on: its state counts the calls made.  An
  integer function fails (\<open>-1\<close>) on the first call ever made and succeeds (\<open>0\<close>)
  afterwards; a pointer function returns the count as its handle, so \<open>NULL\<close> before
  any call was made.  The platform is darwin, \<open>INIT_VIDEO\<close> is \<open>0x20\<close>.
\<close>

definition sample_platform :: "nat platform" where
  "sample_platform = \<lparr>
     int_fn = (\<lambda>f args n. (if n = 0 then - 1 else 0, Suc n)),
     ptr_fn = (\<lambda>f args n. (n, Suc n)),
     str_fn = (\<lambda>f args n. (''no error'', Suc n)),
     void_fn = (\<lambda>f args n. Suc n),
     surface_at = (\<lambda>n p. \<lparr>c_flags = 0, c_format = 7, c_w = 640, c_h = 480,
                           c_pitch = 2560, c_pixels = 9\<rparr>),
     GOOS = ''darwin'',
     INIT_VIDEO = 0x20\<rparr>"

text \<open>A state with two surfaces, the second of them the current video surface (no
  operation of the sources makes a surface current; the state is built by hand).\<close>

definition sample_surface :: "cptr \<Rightarrow> Surface" where
  "sample_surface c = \<lparr>cSurface = c, Flags = 0, Format = 7, W = 640, H = 480,
     Pitch = 2560, Pixels = 9, gcPixels = None\<rparr>"

definition two_surfaces :: "nat world" where
  "two_surfaces = \<lparr>native = 3, trace = [], held = (\<lambda>m. free), environ = (\<lambda>k. []),
     surfaces = [sample_surface 11, sample_surface 12], currentVideoSurface = Some 1\<rparr>"

section \<open>The event collector\<close>

text \<open>
  Modelled from the spec: the native event queue behind \<open>SDL_PollEvent\<close>.  The file
  that starts the polling goroutine and declares the channel \<open>Events\<close> is not among the
  sources (\<open>Event.poll\<close> above and a reader of \<open>sdl.Events\<close> are), and the native
  library is no code of the repository.  The spec: ``A background collector that
  polls the native event queue and republishes events through a concurrency-safe
  queue for application consumers''; ``The event queue is produced by one polling
  thread and consumed by arbitrarily many readers; delivery order must match native
  queue order''.  The native library keeps its pending events oldest first.
  \<open>SDL_PollEvent\<close> returns 0 when there is none; otherwise it removes the oldest,
  writes it to the \<open>Event\<close> the caller passed and returns 1.
\<close>

record 'e event_queue =
  pending :: "'e list"
  written :: "'e option"

definition events_platform :: "'e event_queue platform" where
  "events_platform = \<lparr>
     int_fn = (\<lambda>f args n.
        if f = ''SDL_PollEvent''
        then (case pending n of
                [] \<Rightarrow> (0, n)
              | e # es \<Rightarrow> (1, n\<lparr>pending := es, written := Some e\<rparr>))
        else (0, n)),
     ptr_fn = (\<lambda>f args n. (0, n)),
     str_fn = (\<lambda>f args n. ([], n)),
     void_fn = (\<lambda>f args n. n),
     surface_at = (\<lambda>n p. \<lparr>c_flags = 0, c_format = 0, c_w = 0, c_h = 0,
                           c_pitch = 0, c_pixels = 0\<rparr>),
     GOOS = ''linux'',
     INIT_VIDEO = 0x20\<rparr>"

text \<open>
  Modelled from the spec: the state of the flow of events from the library to the
  readers (the channel \<open>Events\<close> is declared in the missing file).  It holds the
  binding's world over that library; the channel (what was sent and not yet
  received, oldest first); what the readers have received, in the order of receipt,
  each with the reader that got it; and two histories kept for the statement only:
  every event the library ever queued and every event the collector took, both
  oldest first.
\<close>

record 'e flow =
  sdl :: "'e event_queue world"
  channel :: "'e list"
  delivered :: "(nat \<times> 'e) list"
  queued :: "'e list"
  taken :: "'e list"

definition flow_start :: "'e flow" where
  "flow_start = \<lparr>sdl = startup \<lparr>pending = [], written = None\<rparr>, channel = [],
     delivered = [], queued = [], taken = []\<rparr>"

text \<open>Modelled from the spec: one round of the collector (the polling goroutine is in
  the missing file).  It calls \<open>poll\<close>, which is the source's; when \<open>poll\<close> says there
  was an event, it sends the event written to its \<open>Event\<close> on the channel.\<close>

definition collect :: "cptr \<Rightarrow> 'e flow \<Rightarrow> 'e flow" where
  "collect ev F =
     (case poll events_platform ev (sdl F) of
        (Inr True, w) \<Rightarrow>
          (case written (native w) of
             Some e \<Rightarrow> F\<lparr>sdl := w, channel := channel F @ [e], taken := taken F @ [e]\<rparr>
           | None \<Rightarrow> F\<lparr>sdl := w\<rparr>)
      | (r, w) \<Rightarrow> F\<lparr>sdl := w\<rparr>)"

text \<open>Modelled from the spec: the steps of the flow (one producer, any number of
  readers, as the spec says; the goroutines are in the missing file).  The library
  queues an event; the one collector makes a round; a reader receives the oldest
  event on the channel (a reader that finds the channel empty goes on waiting).  A
  schedule is a list of such steps, run from the start.\<close>

datatype 'e flow_action = Arrives 'e | Collects cptr | Receives nat

fun flow_step :: "'e flow_action \<Rightarrow> 'e flow \<Rightarrow> 'e flow" where
  "flow_step (Arrives e) F =
     F\<lparr>sdl := (sdl F)\<lparr>native := (native (sdl F))\<lparr>pending := pending (native (sdl F)) @ [e]\<rparr>\<rparr>,
       queued := queued F @ [e]\<rparr>"
| "flow_step (Collects ev) F = collect ev F"
| "flow_step (Receives reader) F =
     (case channel F of
        [] \<Rightarrow> F
      | e # es \<Rightarrow> F\<lparr>channel := es, delivered := delivered F @ [(reader, e)]\<rparr>)"

definition flow_run :: "'e flow_action list \<Rightarrow> 'e flow" where
  "flow_run acts = fold flow_step acts flow_start"

text \<open>What holds of the flow at every moment: the binding holds no mutex between two
  rounds, nothing taken is lost or reordered on the way to the readers, and nothing
  queued is lost or reordered on the way to the collector.\<close>

definition flow_invariant :: "'e flow \<Rightarrow> bool" where
  "flow_invariant F =
     (all_free (sdl F)
      \<and> map snd (delivered F) @ channel F = taken F
      \<and> taken F @ pending (native (sdl F)) = queued F)"


section \<open>Unfolding the operations\<close>

lemma call_int_apply:
  "call_int P f args s = (Inr (fst (int_fn P f args (native s))),
     s\<lparr>trace := trace s @ [Native f args], native := snd (int_fn P f args (native s))\<rparr>)"
  by (simp add: call_int_def seq_def bind_def emit_def case_prod_beta)

lemma call_ptr_apply:
  "call_ptr P f args s = (Inr (fst (ptr_fn P f args (native s))),
     s\<lparr>trace := trace s @ [Native f args], native := snd (ptr_fn P f args (native s))\<rparr>)"
  by (simp add: call_ptr_def seq_def bind_def emit_def case_prod_beta)

lemma call_str_apply:
  "call_str P f args s = (Inr (fst (str_fn P f args (native s))),
     s\<lparr>trace := trace s @ [Native f args], native := snd (str_fn P f args (native s))\<rparr>)"
  by (simp add: call_str_def seq_def bind_def emit_def case_prod_beta)

lemma call_void_apply:
  "call_void P f args s = (Inr (),
     s\<lparr>trace := trace s @ [Native f args], native := void_fn P f args (native s)\<rparr>)"
  by (simp add: call_void_def seq_def bind_def emit_def)

lemma os_Setenv_apply:
  "os_Setenv k v s = (Inr (),
     s\<lparr>trace := trace s @ [Setenv k v], environ := (environ s)(k := v)\<rparr>)"
  by (simp add: os_Setenv_def seq_def bind_def emit_def)

lemmas go_defs = return_def raise_def bind_def seq_def deferring_def emit_def
  Mutex_Lock_def Mutex_Unlock_def Mutex_RLock_def Mutex_RUnlock_def deref_def
  surface_addr_def read_surface_def write_surface_def new_surface_def
  call_int_apply call_ptr_apply call_str_apply call_void_apply Getenv_def os_Setenv_apply
  get_currentVideoSurface_def set_currentVideoSurface_def

lemma new_events_append [simp]: "new_events s (s\<lparr>trace := trace s @ es\<rparr>) = es"
  by (simp add: new_events_def)

lemma new_events_same [simp]: "new_events s s = []"
  by (simp add: new_events_def)

section \<open>\<open>CreateWindowAndRenderer\<close>\<close>

text \<open>
  C9.  \<open>CreateWindowAndRenderer\<close> never returns a window or a renderer: whatever its
  arguments, it panics on the nil \<open>win\<close> before the native function is entered (a
  caller that itself holds \<open>GlobalMutex\<close> waits for it forever instead).  The deferred
  unlock runs, so the mutex is as it was.
\<close>

theorem CreateWindowAndRenderer_always_panics:
  "fst (CreateWindowAndRenderer P h w flags s) =
     (if held s GlobalMutex = free then Inl nil_dereference else Inl blocked_forever)
   \<and> natives (new_events s (snd (CreateWindowAndRenderer P h w flags s))) = []
   \<and> held (snd (CreateWindowAndRenderer P h w flags s)) GlobalMutex = held s GlobalMutex"
  by (simp add: CreateWindowAndRenderer_def go_defs natives_def new_events_def)

section \<open>\<open>CreateRGBSurfaceFrom\<close>\<close>

lemmas surface_defs = wrapSurface_def SetCSurface_def reload_def destroy_def zero_Surface_def

lemma new_events_eq: "trace s' = trace s @ es \<Longrightarrow> new_events s s' = es"
  by (simp add: new_events_def)

lemma CreateRGBSurfaceFrom_refuses:
  "Kind pixels \<noteq> reflect_Ptr \<Longrightarrow> Kind pixels \<noteq> reflect_UnsafePointer \<Longrightarrow>
   Kind pixels \<noteq> reflect_Slice \<Longrightarrow>
   CreateRGBSurfaceFrom P pixels width height bpp pitch Rmask Gmask Bmask Amask s =
     (Inl (panic_string (''Don'' @ [CHR 0x27] @ ''t know how to handle type: ''
                         @ kind_String (Kind pixels))), s)"
  by (simp add: CreateRGBSurfaceFrom_def go_defs)

lemma CreateRGBSurfaceFrom_blocks:
  "held s GlobalMutex \<noteq> free \<Longrightarrow>
   fst (CreateRGBSurfaceFrom P pixels width height bpp pitch Rmask Gmask Bmask Amask s)
     \<in> {Inl blocked_forever, Inl (panic_string (''Don'' @ [CHR 0x27]
           @ ''t know how to handle type: '' @ kind_String (Kind pixels)))}"
  by (simp add: CreateRGBSurfaceFrom_def go_defs)

lemma CreateRGBSurfaceFrom_pointer_check:
  "Kind pixels = reflect_Ptr \<or> Kind pixels = reflect_UnsafePointer
     \<or> Kind pixels = reflect_Slice \<Longrightarrow>
   held s GlobalMutex = free \<Longrightarrow> holds_go_pointer pixels \<Longrightarrow>
   CreateRGBSurfaceFrom P pixels width height bpp pitch Rmask Gmask Bmask Amask s =
     (Inl cgo_pointer_panic,
      s\<lparr>trace := trace s @ [Lock GlobalMutex], held := (held s)(GlobalMutex := writer)\<rparr>)"
  by (auto simp add: CreateRGBSurfaceFrom_def cgoCheckPointer_def go_defs)

lemma CreateRGBSurfaceFrom_null:
  assumes "Kind pixels = reflect_Ptr \<or> Kind pixels = reflect_UnsafePointer
     \<or> Kind pixels = reflect_Slice"
    and "held s GlobalMutex = free" and "\<not> holds_go_pointer pixels"
    and "fst (ptr_fn P ''SDL_CreateRGBSurfaceFrom''
             [C_ptr (the_Pointer pixels), c_int width, c_int height, c_int bpp, c_int pitch,
              C_Uint32 Rmask, C_Uint32 Gmask, C_Uint32 Bmask, C_Uint32 Amask] (native s)) = 0"
  shows "fst (CreateRGBSurfaceFrom P pixels width height bpp pitch Rmask Gmask Bmask Amask s)
       = Inl nil_dereference
     \<and> trace (snd (CreateRGBSurfaceFrom P pixels width height bpp pitch Rmask Gmask Bmask
          Amask s))
       = trace s @ [Lock GlobalMutex,
            Native ''SDL_CreateRGBSurfaceFrom''
             [C_ptr (the_Pointer pixels), c_int width, c_int height, c_int bpp, c_int pitch,
              C_Uint32 Rmask, C_Uint32 Gmask, C_Uint32 Bmask, C_Uint32 Amask],
            Unlock GlobalMutex]"
  using assms
  by (simp add: CreateRGBSurfaceFrom_def cgoCheckPointer_def surface_defs go_defs)

lemma CreateRGBSurfaceFrom_handle:
  assumes "Kind pixels = reflect_Ptr \<or> Kind pixels = reflect_UnsafePointer
     \<or> Kind pixels = reflect_Slice"
    and "held s GlobalMutex = free" and "\<not> holds_go_pointer pixels"
    and "fst (ptr_fn P ''SDL_CreateRGBSurfaceFrom''
             [C_ptr (the_Pointer pixels), c_int width, c_int height, c_int bpp, c_int pitch,
              C_Uint32 Rmask, C_Uint32 Gmask, C_Uint32 Bmask, C_Uint32 Amask] (native s)) \<noteq> 0"
  shows "fst (CreateRGBSurfaceFrom P pixels width height bpp pitch Rmask Gmask Bmask Amask s)
       = Inr (Some (length (surfaces s)))
     \<and> trace (snd (CreateRGBSurfaceFrom P pixels width height bpp pitch Rmask Gmask Bmask
          Amask s))
       = trace s @ [Lock GlobalMutex,
            Native ''SDL_CreateRGBSurfaceFrom''
             [C_ptr (the_Pointer pixels), c_int width, c_int height, c_int bpp, c_int pitch,
              C_Uint32 Rmask, C_Uint32 Gmask, C_Uint32 Bmask, C_Uint32 Amask],
            Unlock GlobalMutex]
     \<and> length (surfaces (snd (CreateRGBSurfaceFrom P pixels width height bpp pitch Rmask Gmask
          Bmask Amask s))) = Suc (length (surfaces s))
     \<and> gcPixels (surfaces (snd (CreateRGBSurfaceFrom P pixels width height bpp pitch Rmask
          Gmask Bmask Amask s)) ! length (surfaces s)) = pixels
     \<and> cSurface (surfaces (snd (CreateRGBSurfaceFrom P pixels width height bpp pitch Rmask
          Gmask Bmask Amask s)) ! length (surfaces s))
       = fst (ptr_fn P ''SDL_CreateRGBSurfaceFrom''
             [C_ptr (the_Pointer pixels), c_int width, c_int height, c_int bpp, c_int pitch,
              C_Uint32 Rmask, C_Uint32 Gmask, C_Uint32 Bmask, C_Uint32 Amask] (native s))"
  using assms
  by (simp add: CreateRGBSurfaceFrom_def cgoCheckPointer_def surface_defs go_defs)

text \<open>
  C10.  \<open>CreateRGBSurfaceFrom\<close> panics, before it takes any lock, for every \<open>pixels\<close>
  whose kind is not pointer, unsafe pointer or slice (a nil interface included).  For
  the three kinds it handles, called with \<open>GlobalMutex\<close> free: when the pointer points to
  Go memory that holds a Go pointer, the cgo pointer check panics before the native
  function is entered, and \<open>GlobalMutex\<close> stays locked; otherwise the native function is
  entered, and when it returns \<open>NULL\<close> the wrapper panics with a nil dereference
  (assigning \<open>gcPixels\<close> through the nil wrapper), and when it returns a handle the
  wrapper returns a new surface around that handle whose \<open>gcPixels\<close> is the \<open>pixels\<close>
  argument.  It never returns nil, and whenever it returns, the surface it returns
  holds the handle and the \<open>pixels\<close> argument.
\<close>

theorem CreateRGBSurfaceFrom_panics_or_keeps_pixels:
  fixes P :: "'n platform" and s :: "'n world" and pixels width height bpp pitch
    Rmask Gmask Bmask Amask
  defines "r \<equiv> CreateRGBSurfaceFrom P pixels width height bpp pitch Rmask Gmask Bmask Amask s"
  defines "call \<equiv> Native ''SDL_CreateRGBSurfaceFrom''
             [C_ptr (the_Pointer pixels), c_int width, c_int height, c_int bpp, c_int pitch,
              C_Uint32 Rmask, C_Uint32 Gmask, C_Uint32 Bmask, C_Uint32 Amask]"
  defines "p \<equiv> fst (ptr_fn P ''SDL_CreateRGBSurfaceFrom''
             [C_ptr (the_Pointer pixels), c_int width, c_int height, c_int bpp, c_int pitch,
              C_Uint32 Rmask, C_Uint32 Gmask, C_Uint32 Bmask, C_Uint32 Amask] (native s))"
  defines "accepted \<equiv> Kind pixels = reflect_Ptr \<or> Kind pixels = reflect_UnsafePointer
              \<or> Kind pixels = reflect_Slice"
  shows "(\<not> accepted \<longrightarrow>
          fst r = Inl (panic_string (''Don'' @ [CHR 0x27] @ ''t know how to handle type: ''
                         @ kind_String (Kind pixels)))
          \<and> new_events s (snd r) = [])
       \<and> (accepted \<and> held s GlobalMutex = free \<and> holds_go_pointer pixels \<longrightarrow>
          fst r = Inl cgo_pointer_panic
          \<and> natives (new_events s (snd r)) = []
          \<and> held (snd r) GlobalMutex = writer)
       \<and> (accepted \<and> held s GlobalMutex = free \<and> \<not> holds_go_pointer pixels \<and> p = 0 \<longrightarrow>
          fst r = Inl nil_dereference
          \<and> natives (new_events s (snd r)) = [call])
       \<and> fst r \<noteq> Inr None
       \<and> (accepted \<and> held s GlobalMutex = free \<and> \<not> holds_go_pointer pixels \<and> p \<noteq> 0 \<longrightarrow>
          fst r = Inr (Some (length (surfaces s))))
       \<and> (\<forall>x. fst r = Inr x \<longrightarrow>
          x = Some (length (surfaces s))
          \<and> length (surfaces (snd r)) = Suc (length (surfaces s))
          \<and> gcPixels (surfaces (snd r) ! length (surfaces s)) = pixels
          \<and> cSurface (surfaces (snd r) ! length (surfaces s)) = p
          \<and> p \<noteq> 0
          \<and> natives (new_events s (snd r)) = [call])"
proof -
  consider (refused) "\<not> accepted"
    | (blocked) "accepted" "held s GlobalMutex \<noteq> free"
    | (checked) "accepted" "held s GlobalMutex = free" "holds_go_pointer pixels"
    | (null) "accepted" "held s GlobalMutex = free" "\<not> holds_go_pointer pixels" "p = 0"
    | (handle) "accepted" "held s GlobalMutex = free" "\<not> holds_go_pointer pixels" "p \<noteq> 0"
    by blast
  then show ?thesis
  proof cases
    case refused
    then have "r = (Inl (panic_string (''Don'' @ [CHR 0x27] @ ''t know how to handle type: ''
                         @ kind_String (Kind pixels))), s)"
      unfolding r_def accepted_def by (simp add: CreateRGBSurfaceFrom_refuses)
    then have "fst r = Inl (panic_string (''Don'' @ [CHR 0x27] @ ''t know how to handle type: ''
                         @ kind_String (Kind pixels)))" "new_events s (snd r) = []"
      by simp_all
    with refused show ?thesis by (simp only: simp_thms sum.inject sum.distinct not_False_eq_True)
  next
    case blocked
    have "fst r \<in> {Inl blocked_forever, Inl (panic_string (''Don'' @ [CHR 0x27]
           @ ''t know how to handle type: '' @ kind_String (Kind pixels)))}"
      unfolding r_def using blocked(2) by (rule CreateRGBSurfaceFrom_blocks)
    with blocked show ?thesis by auto
  next
    case checked
    then have "r = (Inl cgo_pointer_panic,
      s\<lparr>trace := trace s @ [Lock GlobalMutex], held := (held s)(GlobalMutex := writer)\<rparr>)"
      unfolding r_def accepted_def by (simp only: CreateRGBSurfaceFrom_pointer_check)
    then have "fst r = Inl cgo_pointer_panic" "trace (snd r) = trace s @ [Lock GlobalMutex]"
      "held (snd r) GlobalMutex = writer"
      by simp_all
    with checked show ?thesis by (simp add: new_events_eq natives_def)
  next
    case null
    then have "fst r = Inl nil_dereference"
      "trace (snd r) = trace s @ [Lock GlobalMutex, call, Unlock GlobalMutex]"
      unfolding r_def accepted_def p_def call_def
      using CreateRGBSurfaceFrom_null [of pixels s P width height bpp pitch Rmask Gmask Bmask
          Amask]
      by simp_all
    with null show ?thesis by (simp add: new_events_eq natives_def call_def)
  next
    case handle
    then have "fst r = Inr (Some (length (surfaces s)))"
      "trace (snd r) = trace s @ [Lock GlobalMutex, call, Unlock GlobalMutex]"
      "length (surfaces (snd r)) = Suc (length (surfaces s))"
      "gcPixels (surfaces (snd r) ! length (surfaces s)) = pixels"
      "cSurface (surfaces (snd r) ! length (surfaces s)) = p"
      unfolding r_def accepted_def p_def call_def
      using CreateRGBSurfaceFrom_handle [of pixels s P width height bpp pitch Rmask Gmask Bmask
          Amask]
      by simp_all
    with handle show ?thesis by (simp add: new_events_eq natives_def call_def)
  qed
qed


theorem CreateRGBSurfaceFrom_witness:
  "fst (CreateRGBSurfaceFrom sample_platform
          (Some \<lparr>val_kind = reflect_Int, val_pointer = 0, val_holds_go_pointer = False\<rparr>)
          640 480 32 2560 0 0 0 0 (startup 1))
     = Inl (panic_string (''Don'' @ [CHR 0x27] @ ''t know how to handle type: int''))
   \<and> fst (CreateRGBSurfaceFrom sample_platform
          (Some \<lparr>val_kind = reflect_Slice, val_pointer = 5, val_holds_go_pointer = True\<rparr>)
          640 480 32 2560 0 0 0 0 (startup 1))
     = Inl cgo_pointer_panic
   \<and> fst (CreateRGBSurfaceFrom sample_platform
          (Some \<lparr>val_kind = reflect_Slice, val_pointer = 5, val_holds_go_pointer = False\<rparr>)
          640 480 32 2560 0 0 0 0 (startup 0))
     = Inl nil_dereference
   \<and> fst (CreateRGBSurfaceFrom sample_platform
          (Some \<lparr>val_kind = reflect_Slice, val_pointer = 5, val_holds_go_pointer = False\<rparr>)
          640 480 32 2560 0 0 0 0 (startup 1))
     = Inr (Some 0)
   \<and> gcPixels (surfaces (snd (CreateRGBSurfaceFrom sample_platform
          (Some \<lparr>val_kind = reflect_Slice, val_pointer = 5, val_holds_go_pointer = False\<rparr>)
          640 480 32 2560 0 0 0 0 (startup 1))) ! 0)
     = Some \<lparr>val_kind = reflect_Slice, val_pointer = 5, val_holds_go_pointer = False\<rparr>"
proof -
  note t = CreateRGBSurfaceFrom_panics_or_keeps_pixels
      [where P = sample_platform and width = 640 and height = 480 and bpp = 32
         and pitch = 2560 and Rmask = 0 and Gmask = 0 and Bmask = 0 and Amask = 0]
  have free: "held (startup n) GlobalMutex = free" and none: "surfaces (startup n) = []"
    and nat: "native (startup n) = n" for n :: nat
    by (simp_all add: startup_def)
  have ptr: "fst (ptr_fn sample_platform f args n) = n" for f args n
    by (simp add: sample_platform_def)
  have a: "fst (CreateRGBSurfaceFrom sample_platform
          (Some \<lparr>val_kind = reflect_Int, val_pointer = 0, val_holds_go_pointer = False\<rparr>)
          640 480 32 2560 0 0 0 0 (startup 1))
     = Inl (panic_string (''Don'' @ [CHR 0x27] @ ''t know how to handle type: int''))"
    using t [where pixels = "Some \<lparr>val_kind = reflect_Int, val_pointer = 0,
        val_holds_go_pointer = False\<rparr>" and s = "startup 1", THEN conjunct1]
    by (simp add: Kind_def)
  have b: "fst (CreateRGBSurfaceFrom sample_platform
          (Some \<lparr>val_kind = reflect_Slice, val_pointer = 5, val_holds_go_pointer = True\<rparr>)
          640 480 32 2560 0 0 0 0 (startup 1))
     = Inl cgo_pointer_panic"
    using t [where pixels = "Some \<lparr>val_kind = reflect_Slice, val_pointer = 5,
        val_holds_go_pointer = True\<rparr>" and s = "startup 1", THEN conjunct2, THEN conjunct1]
    by (simp add: Kind_def holds_go_pointer_def free)
  have c: "fst (CreateRGBSurfaceFrom sample_platform
          (Some \<lparr>val_kind = reflect_Slice, val_pointer = 5, val_holds_go_pointer = False\<rparr>)
          640 480 32 2560 0 0 0 0 (startup 0))
     = Inl nil_dereference"
    using t [where pixels = "Some \<lparr>val_kind = reflect_Slice, val_pointer = 5,
        val_holds_go_pointer = False\<rparr>" and s = "startup 0",
        THEN conjunct2, THEN conjunct2, THEN conjunct1]
    by (simp add: Kind_def holds_go_pointer_def free nat ptr)
  note t1 = t [where pixels = "Some \<lparr>val_kind = reflect_Slice, val_pointer = 5,
        val_holds_go_pointer = False\<rparr>" and s = "startup 1",
        THEN conjunct2, THEN conjunct2, THEN conjunct2, THEN conjunct2]
  have d: "fst (CreateRGBSurfaceFrom sample_platform
          (Some \<lparr>val_kind = reflect_Slice, val_pointer = 5, val_holds_go_pointer = False\<rparr>)
          640 480 32 2560 0 0 0 0 (startup 1))
     = Inr (Some 0)"
    using t1 [THEN conjunct1]
    by (simp add: Kind_def holds_go_pointer_def free nat ptr none)
  have e: "gcPixels (surfaces (snd (CreateRGBSurfaceFrom sample_platform
          (Some \<lparr>val_kind = reflect_Slice, val_pointer = 5, val_holds_go_pointer = False\<rparr>)
          640 480 32 2560 0 0 0 0 (startup 1))) ! 0)
     = Some \<lparr>val_kind = reflect_Slice, val_pointer = 5, val_holds_go_pointer = False\<rparr>"
    using t1 [THEN conjunct2, THEN spec, THEN mp, OF d] by (simp add: none)
  show ?thesis using a b c d e by (intro conjI)
qed

section \<open>\<open>Surface.Free\<close>\<close>

lemma Free_allocated:
  assumes "a < length (surfaces s)" "held s GlobalMutex = free" "held s (surface_mutex a) = free"
  shows "Free P (Some a) s =
     (Inr (), s\<lparr>native := void_fn P ''SDL_FreeSurface'' [C_ptr (cSurface (surfaces s ! a))] (native s),
        trace := trace s @ [Lock GlobalMutex, Lock (surface_mutex a),
           Native ''SDL_FreeSurface'' [C_ptr (cSurface (surfaces s ! a))],
           Unlock (surface_mutex a), Unlock GlobalMutex],
        surfaces := (surfaces s)[a := (surfaces s ! a)\<lparr>cSurface := 0, Format := 0, Pixels := 0,
           gcPixels := None\<rparr>],
        currentVideoSurface := (if currentVideoSurface s = Some a then None
           else currentVideoSurface s)\<rparr>)"
proof -
  have h: "(held s)(GlobalMutex := free) = held s" "(held s)(surface_mutex a := free) = held s"
    using assms by (simp_all add: fun_upd_idem)
  show ?thesis
    using assms by (simp add: Free_def surface_defs go_defs fun_upd_twist h)
qed

lemma Free_returns:
  assumes "fst (Free P screen s) = Inr ()"
  shows "\<exists>a. screen = Some a \<and> a < length (surfaces s) \<and> held s GlobalMutex = free
     \<and> held s (surface_mutex a) = free"
proof (cases screen)
  case None
  with assms show ?thesis by (simp add: Free_def go_defs split: if_splits)
next
  case (Some a)
  show ?thesis
  proof (cases "held s GlobalMutex = free")
    case False
    with assms Some show ?thesis by (simp add: Free_def go_defs)
  next
    case g: True
    show ?thesis
    proof (cases "held s (surface_mutex a) = free")
      case False
      with assms Some g show ?thesis by (simp add: Free_def go_defs)
    next
      case m: True
      show ?thesis
      proof (cases "a < length (surfaces s)")
        case False
        with assms Some g m show ?thesis by (simp add: Free_def go_defs)
      next
        case True
        with Some g m show ?thesis by simp
      qed
    qed
  qed
qed


text \<open>
  C7.  \<open>Free\<close> returns for an allocated surface when the caller holds neither
  \<open>GlobalMutex\<close> nor the surface's mutex (on a nil surface it panics).  Whenever it
  returns, the native handle it passed to \<open>SDL_FreeSurface\<close> and the fields
  \<open>Format\<close>, \<open>Pixels\<close> and \<open>gcPixels\<close> of the surface are nil, and if the surface was
  the current video surface then \<open>currentVideoSurface\<close> is nil and \<open>GetVideoSurface\<close>
  returns nil; otherwise \<open>currentVideoSurface\<close> is as before.
\<close>

theorem Free_clears_the_surface:
  fixes P :: "'n platform" and s :: "'n world" and screen :: "nat option" and a :: nat
  defines "r \<equiv> Free P screen s"
  shows "(screen = Some a \<and> a < length (surfaces s) \<and> held s GlobalMutex = free
            \<and> held s (surface_mutex a) = free \<longrightarrow> fst r = Inr ())
       \<and> (fst r = Inr () \<longrightarrow>
            (\<exists>b. screen = Some b \<and> b < length (surfaces (snd r))
               \<and> cSurface (surfaces (snd r) ! b) = 0
               \<and> Format (surfaces (snd r) ! b) = 0
               \<and> Pixels (surfaces (snd r) ! b) = 0
               \<and> gcPixels (surfaces (snd r) ! b) = None
               \<and> natives (new_events s (snd r)) =
                   [Native ''SDL_FreeSurface'' [C_ptr (cSurface (surfaces s ! b))]])
            \<and> (currentVideoSurface s = screen \<longrightarrow>
                 currentVideoSurface (snd r) = None
                 \<and> fst (GetVideoSurface (snd r)) = Inr None)
            \<and> (currentVideoSurface s \<noteq> screen \<longrightarrow>
                 currentVideoSurface (snd r) = currentVideoSurface s))"
proof (intro conjI impI)
  assume "screen = Some a \<and> a < length (surfaces s) \<and> held s GlobalMutex = free
            \<and> held s (surface_mutex a) = free"
  then show "fst r = Inr ()"
    unfolding r_def by (simp add: Free_allocated)
next
  assume ret: "fst r = Inr ()"
  then obtain b where b: "screen = Some b" "b < length (surfaces s)"
      "held s GlobalMutex = free" "held s (surface_mutex b) = free"
    unfolding r_def using Free_returns by blast
  note eq = Free_allocated [OF b(2) b(3) b(4), of P]
  show "\<exists>b. screen = Some b \<and> b < length (surfaces (snd r))
               \<and> cSurface (surfaces (snd r) ! b) = 0
               \<and> Format (surfaces (snd r) ! b) = 0
               \<and> Pixels (surfaces (snd r) ! b) = 0
               \<and> gcPixels (surfaces (snd r) ! b) = None
               \<and> natives (new_events s (snd r)) =
                   [Native ''SDL_FreeSurface'' [C_ptr (cSurface (surfaces s ! b))]]"
    unfolding r_def using b by (simp add: eq natives_def new_events_def)
  {
    assume "currentVideoSurface s = screen"
    then show "currentVideoSurface (snd r) = None"
      unfolding r_def using b by (simp add: eq)
    then show "fst (GetVideoSurface (snd r)) = Inr None"
      unfolding r_def using b by (simp add: eq GetVideoSurface_def go_defs)
  }
  {
    assume "currentVideoSurface s \<noteq> screen"
    then show "currentVideoSurface (snd r) = currentVideoSurface s"
      unfolding r_def using b by (simp add: eq)
  }
qed

theorem Free_witness:
  "fst (Free sample_platform (Some 1) two_surfaces) = Inr ()
   \<and> cSurface (surfaces (snd (Free sample_platform (Some 1) two_surfaces)) ! 1) = 0
   \<and> Format (surfaces (snd (Free sample_platform (Some 1) two_surfaces)) ! 1) = 0
   \<and> Pixels (surfaces (snd (Free sample_platform (Some 1) two_surfaces)) ! 1) = 0
   \<and> gcPixels (surfaces (snd (Free sample_platform (Some 1) two_surfaces)) ! 1) = None
   \<and> natives (new_events two_surfaces (snd (Free sample_platform (Some 1) two_surfaces)))
       = [Native ''SDL_FreeSurface'' [C_ptr 12]]
   \<and> currentVideoSurface two_surfaces = Some 1
   \<and> fst (GetVideoSurface (snd (Free sample_platform (Some 1) two_surfaces))) = Inr None
   \<and> fst (Free sample_platform (Some 0) two_surfaces) = Inr ()
   \<and> currentVideoSurface (snd (Free sample_platform (Some 0) two_surfaces)) = Some 1"
  using Free_clears_the_surface
      [where screen = "Some 1" and a = 1 and s = two_surfaces and P = sample_platform]
    Free_clears_the_surface
      [where screen = "Some 0" and a = 0 and s = two_surfaces and P = sample_platform]
  by (simp add: two_surfaces_def sample_surface_def)

section \<open>Constructors of handles\<close>

lemma wraps_handle_wrapWindow: "wraps_handle c (wrapWindow c) cWindow"
  by (simp add: wraps_handle_def wrapWindow_def)

lemma wraps_handle_wrapRenderer: "wraps_handle c (wrapRenderer c) cRenderer"
  by (simp add: wraps_handle_def wrapRenderer_def)

lemma wraps_handle_wrapTexture: "wraps_handle c (wrapTexture c) cTexture"
  by (simp add: wraps_handle_def wrapTexture_def)

lemma wraps_handle_wrapJoystick: "wraps_handle c (wrapJoystick c) cJoystick"
  by (simp add: wraps_handle_def wrapJoystick_def)

lemma wrapSurface_wraps:
  "\<exists>r. fst (wrapSurface P c s) = Inr r
     \<and> wraps_handle c r (\<lambda>a. cSurface (surfaces (snd (wrapSurface P c s)) ! a))
     \<and> (c = 0 \<longrightarrow> snd (wrapSurface P c s) = s)"
  by (simp add: surface_defs go_defs wraps_handle_def)

lemma CreateWindow_wraps:
  assumes "held s GlobalMutex = free"
  shows "fst (CreateWindow P title x y h w flags s) =
     Inr (wrapWindow (fst (ptr_fn P ''SDL_CreateWindow''
        [C_string title, c_int x, c_int y, c_int h, c_int w, C_Uint32 flags] (native s))))"
  using assms by (simp add: CreateWindow_def go_defs)

lemma CreateRenderer_wraps:
  assumes "held s GlobalMutex = free"
  shows "fst (CreateRenderer P (Some win) index flags s) =
     Inr (wrapRenderer (fst (ptr_fn P ''SDL_CreateRenderer''
        [C_ptr (cWindow win), c_int index, C_Uint32 flags] (native s))))"
  using assms by (simp add: CreateRenderer_def go_defs)

lemma CreateTextureFromSurface_wraps:
  assumes "held s GlobalMutex = free" "a < length (surfaces s)"
  shows "fst (CreateTextureFromSurface P (Some ren) (Some a) s) =
     Inr (wrapTexture (fst (ptr_fn P ''SDL_CreateTextureFromSurface''
        [C_ptr (cRenderer ren), C_ptr (cSurface (surfaces s ! a))] (native s))))"
  using assms by (simp add: CreateTextureFromSurface_def go_defs)

lemma JoystickOpen_wraps:
  assumes "held s GlobalMutex = free"
  shows "fst (JoystickOpen P deviceIndex s) =
     Inr (wrapJoystick (fst (ptr_fn P ''SDL_JoystickOpen'' [c_int deviceIndex] (native s))))"
  using assms by (simp add: JoystickOpen_def go_defs)

lemma CreateRGBSurface_wraps:
  assumes "held s GlobalMutex = free"
  shows "\<exists>r. fst (CreateRGBSurface P flags width height bpp Rmask Gmask Bmask Amask s) = Inr r
     \<and> wraps_handle (fst (ptr_fn P ''SDL_CreateRGBSurface''
          [C_Uint32 flags, c_int width, c_int height, c_int bpp,
           C_Uint32 Rmask, C_Uint32 Gmask, C_Uint32 Bmask, C_Uint32 Amask] (native s))) r
        (\<lambda>a. cSurface (surfaces
           (snd (CreateRGBSurface P flags width height bpp Rmask Gmask Bmask Amask s)) ! a))"
  using assms
  by (simp add: CreateRGBSurface_def surface_defs go_defs wraps_handle_def)

lemma Load_wraps:
  assumes "held s GlobalMutex = free"
  shows "\<exists>r. fst (Load P file s) = Inr r
     \<and> wraps_handle (fst (ptr_fn P ''IMG_Load'' [C_string file] (native s))) r
        (\<lambda>a. cSurface (surfaces (snd (Load P file s)) ! a))"
  using assms
  by (simp add: Load_def surface_defs go_defs wraps_handle_def Let_def)

lemma LoadWAV_wraps:
  "\<exists>r. fst (LoadWAV P file s) = Inr r
     \<and> wraps_handle
        (fst (ptr_fn P ''Mix_LoadWAV_RW''
           [C_ptr (fst (ptr_fn P ''SDL_RWFromFile'' [C_string file, C_string ''rb''] (native s))),
            C_int 1]
           (snd (ptr_fn P ''SDL_RWFromFile'' [C_string file, C_string ''rb''] (native s)))))
        r cchunk"
  by (simp add: LoadWAV_def go_defs wraps_handle_def Let_def)

lemma GetChunk_wraps:
  "\<exists>r. fst (GetChunk P chan s) = Inr r
     \<and> wraps_handle (fst (ptr_fn P ''Mix_GetChunk'' [c_int chan] (native s))) r cchunk"
  by (simp add: GetChunk_def go_defs wraps_handle_def)

lemma GetError_result:
  assumes "held s GlobalMutex = free"
  shows "fst (GetError P s) = Inr (fst (str_fn P ''SDL_GetError'' [] (native s)))"
  using assms by (simp add: GetError_def go_defs)

text \<open>
  C5.  Called with \<open>GlobalMutex\<close> free and non-nil arguments, each of \<open>CreateWindow\<close>,
  \<open>CreateRenderer\<close>, \<open>CreateTextureFromSurface\<close>, \<open>CreateRGBSurface\<close>, \<open>Load\<close>,
  \<open>JoystickOpen\<close>, \<open>LoadWAV\<close> and \<open>GetChunk\<close> returns (it does not panic), and its
  result is nil exactly when the native call returned \<open>NULL\<close> and is otherwise a wrapper
  holding exactly the handle the native call returned.  \<open>GetError\<close> returns the string
  of the native \<open>SDL_GetError\<close>.
\<close>

theorem constructors_wrap_the_native_handle:
  assumes "held s GlobalMutex = free"
  shows
    "(\<exists>r. fst (CreateWindow P title x y h w flags s) = Inr r
        \<and> wraps_handle (fst (ptr_fn P ''SDL_CreateWindow''
             [C_string title, c_int x, c_int y, c_int h, c_int w, C_Uint32 flags] (native s)))
           r cWindow)
     \<and> (\<exists>r. fst (CreateRenderer P (Some win) index flags s) = Inr r
        \<and> wraps_handle (fst (ptr_fn P ''SDL_CreateRenderer''
             [C_ptr (cWindow win), c_int index, C_Uint32 flags] (native s)))
           r cRenderer)
     \<and> (a < length (surfaces s) \<longrightarrow>
         (\<exists>r. fst (CreateTextureFromSurface P (Some ren) (Some a) s) = Inr r
        \<and> wraps_handle (fst (ptr_fn P ''SDL_CreateTextureFromSurface''
             [C_ptr (cRenderer ren), C_ptr (cSurface (surfaces s ! a))] (native s)))
           r cTexture))
     \<and> (\<exists>r. fst (CreateRGBSurface P flags width height bpp Rmask Gmask Bmask Amask s) = Inr r
        \<and> wraps_handle (fst (ptr_fn P ''SDL_CreateRGBSurface''
             [C_Uint32 flags, c_int width, c_int height, c_int bpp,
              C_Uint32 Rmask, C_Uint32 Gmask, C_Uint32 Bmask, C_Uint32 Amask] (native s)))
           r (\<lambda>a. cSurface (surfaces
                (snd (CreateRGBSurface P flags width height bpp Rmask Gmask Bmask Amask s)) ! a)))
     \<and> (\<exists>r. fst (Load P fname s) = Inr r
        \<and> wraps_handle (fst (ptr_fn P ''IMG_Load'' [C_string fname] (native s)))
           r (\<lambda>a. cSurface (surfaces (snd (Load P fname s)) ! a)))
     \<and> (\<exists>r. fst (JoystickOpen P deviceIndex s) = Inr r
        \<and> wraps_handle (fst (ptr_fn P ''SDL_JoystickOpen'' [c_int deviceIndex] (native s)))
           r cJoystick)
     \<and> (\<exists>r. fst (LoadWAV P fname s) = Inr r
        \<and> wraps_handle
            (fst (ptr_fn P ''Mix_LoadWAV_RW''
               [C_ptr (fst (ptr_fn P ''SDL_RWFromFile'' [C_string fname, C_string ''rb'']
                        (native s))),
                C_int 1]
               (snd (ptr_fn P ''SDL_RWFromFile'' [C_string fname, C_string ''rb''] (native s)))))
            r cchunk)
     \<and> (\<exists>r. fst (GetChunk P chan s) = Inr r
        \<and> wraps_handle (fst (ptr_fn P ''Mix_GetChunk'' [c_int chan] (native s))) r cchunk)
     \<and> fst (GetError P s) = Inr (fst (str_fn P ''SDL_GetError'' [] (native s)))"
proof (intro conjI impI)
  show "\<exists>r. fst (CreateWindow P title x y h w flags s) = Inr r
        \<and> wraps_handle (fst (ptr_fn P ''SDL_CreateWindow''
             [C_string title, c_int x, c_int y, c_int h, c_int w, C_Uint32 flags] (native s)))
           r cWindow"
    by (simp add: CreateWindow_wraps [OF assms] wraps_handle_wrapWindow)
  show "\<exists>r. fst (CreateRenderer P (Some win) index flags s) = Inr r
        \<and> wraps_handle (fst (ptr_fn P ''SDL_CreateRenderer''
             [C_ptr (cWindow win), c_int index, C_Uint32 flags] (native s)))
           r cRenderer"
    by (simp add: CreateRenderer_wraps [OF assms] wraps_handle_wrapRenderer)
  show "\<exists>r. fst (CreateTextureFromSurface P (Some ren) (Some a) s) = Inr r
        \<and> wraps_handle (fst (ptr_fn P ''SDL_CreateTextureFromSurface''
             [C_ptr (cRenderer ren), C_ptr (cSurface (surfaces s ! a))] (native s)))
           r cTexture" if "a < length (surfaces s)"
    by (simp add: CreateTextureFromSurface_wraps [OF assms that] wraps_handle_wrapTexture)
  show "\<exists>r. fst (CreateRGBSurface P flags width height bpp Rmask Gmask Bmask Amask s) = Inr r
        \<and> wraps_handle (fst (ptr_fn P ''SDL_CreateRGBSurface''
             [C_Uint32 flags, c_int width, c_int height, c_int bpp,
              C_Uint32 Rmask, C_Uint32 Gmask, C_Uint32 Bmask, C_Uint32 Amask] (native s)))
           r (\<lambda>a. cSurface (surfaces
                (snd (CreateRGBSurface P flags width height bpp Rmask Gmask Bmask Amask s)) ! a))"
    by (rule CreateRGBSurface_wraps [OF assms])
  show "\<exists>r. fst (Load P fname s) = Inr r
        \<and> wraps_handle (fst (ptr_fn P ''IMG_Load'' [C_string fname] (native s)))
           r (\<lambda>a. cSurface (surfaces (snd (Load P fname s)) ! a))"
    by (rule Load_wraps [OF assms])
  show "\<exists>r. fst (JoystickOpen P deviceIndex s) = Inr r
        \<and> wraps_handle (fst (ptr_fn P ''SDL_JoystickOpen'' [c_int deviceIndex] (native s)))
           r cJoystick"
    by (simp add: JoystickOpen_wraps [OF assms] wraps_handle_wrapJoystick)
  show "\<exists>r. fst (LoadWAV P fname s) = Inr r
        \<and> wraps_handle
            (fst (ptr_fn P ''Mix_LoadWAV_RW''
               [C_ptr (fst (ptr_fn P ''SDL_RWFromFile'' [C_string fname, C_string ''rb'']
                        (native s))),
                C_int 1]
               (snd (ptr_fn P ''SDL_RWFromFile'' [C_string fname, C_string ''rb''] (native s)))))
            r cchunk"
    by (rule LoadWAV_wraps)
  show "\<exists>r. fst (GetChunk P chan s) = Inr r
        \<and> wraps_handle (fst (ptr_fn P ''Mix_GetChunk'' [c_int chan] (native s))) r cchunk"
    by (rule GetChunk_wraps)
  show "fst (GetError P s) = Inr (fst (str_fn P ''SDL_GetError'' [] (native s)))"
    by (rule GetError_result [OF assms])
qed

theorem constructors_witness:
  "held (startup (0::nat)) GlobalMutex = free
   \<and> (\<exists>r. fst (CreateWindow sample_platform ''w'' 0 0 640 480 0 (startup 0)) = Inr r
         \<and> wraps_handle 0 r cWindow)
   \<and> (\<exists>r. fst (Load sample_platform ''test.png'' (startup 5)) = Inr r
         \<and> wraps_handle 5 r
             (\<lambda>a. cSurface (surfaces (snd (Load sample_platform ''test.png'' (startup 5))) ! a)))
   \<and> fst (GetError sample_platform (startup 5)) = Inr ''no error''"
proof -
  have f0: "held (startup (0::nat)) GlobalMutex = free"
    and f5: "held (startup (5::nat)) GlobalMutex = free"
    by (simp_all add: startup_def)
  have p: "\<And>f args n. fst (ptr_fn sample_platform f args (native (startup n))) = n"
    "\<And>f args n. fst (str_fn sample_platform f args (native (startup n))) = ''no error''"
    by (simp_all add: sample_platform_def startup_def)
  note t0 = constructors_wrap_the_native_handle [OF f0, where P = sample_platform
      and title = "''w''" and x = 0 and y = 0 and h = 640 and w = 480 and flags = 0]
  note t5 = constructors_wrap_the_native_handle [OF f5, where P = sample_platform
      and fname = "''test.png''"]
  have A: "\<exists>r. fst (CreateWindow sample_platform ''w'' 0 0 640 480 0 (startup 0)) = Inr r
         \<and> wraps_handle 0 r cWindow"
    using t0 [THEN conjunct1] by (simp only: p)
  have B: "\<exists>r. fst (Load sample_platform ''test.png'' (startup 5)) = Inr r
         \<and> wraps_handle 5 r
             (\<lambda>a. cSurface (surfaces (snd (Load sample_platform ''test.png'' (startup 5))) ! a))"
    using t5 [THEN conjunct2, THEN conjunct2, THEN conjunct2, THEN conjunct2, THEN conjunct1]
    by (simp only: p)
  have C: "fst (GetError sample_platform (startup 5)) = Inr ''no error''"
    using t5 [THEN conjunct2, THEN conjunct2, THEN conjunct2, THEN conjunct2, THEN conjunct2,
        THEN conjunct2, THEN conjunct2, THEN conjunct2]
    by (simp only: p)
  show ?thesis using f0 A B C by blast
qed

section \<open>Surface-level operations\<close>

lemmas surface_level_defs = Surface_FillRect_def SetColorKey_def SetClipRect_def GetClipRect_def
  Surface_Lock_def Surface_Unlock_def




section \<open>Facts about every operation\<close>

lemmas renderer_defs = CreateRenderer_def Renderer_Clear_def Renderer_Copy_def Renderer_Present_def
  Renderer_SetDrawColor_def Renderer_FillRect_def Renderer_Destroy_def CreateTextureFromSurface_def
  Texture_Destroy_def

lemmas general_defs = GoSdlVersion_def Init_def Quit_def InitSubSystem_def QuitSubSystem_def
  WasInit_def NumDisplayModes_def GetError_def ClearError_def

lemmas window_defs = SetCWindow_def CreateWindow_def CreateWindowAndRenderer_def Window_GetTitle_def
  Window_SetTitle_def Window_SetIcon_def Window_Destroy_def Window_GL_SwapWindow_def
  GL_SetAttribute_def

lemmas video_defs = GetVideoSurface_def Free_def Surface_Lock_def Surface_Unlock_def Blit_def
  BlitSurface_def Surface_FillRect_def SetColorKey_def GetClipRect_def SetClipRect_def
  MapRGBA_def GetRGBA_def Load_def CreateRGBSurface_def CreateRGBSurfaceFrom_def
  cgoCheckPointer_def

lemmas input_defs = GetKeyName_def poll_def GetMouseState_def GetRelativeMouseState_def
  ShowCursor_def GetTicks_def Delay_def

lemmas joystick_defs = NumJoysticks_def JoystickOpen_def JoystickUpdate_def JoystickEventState_def
  Joystick_Close_def NumAxes_def NumButtons_def NumBalls_def NumHats_def GetHat_def GetButton_def
  GetBall_def GetAxis_def

lemmas mixer_defs = LoadWAV_def Chunk_Free_def Volume_def PlayChannel_def PlayChannelTimed_def
  FadeInChannel_def FadeInChannelTimed_def GetChunk_def

lemma all_free_iff: "all_free s = (\<forall>m. held s m = free)"
  by (auto simp add: all_free_def fun_eq_iff)

lemma fst_ending: "(fst (ending m s) = None) = (\<exists>x. fst (m s) = Inr x)"
  by (cases "m s"; cases "fst (m s)") (auto simp add: ending_def)

lemma snd_ending: "snd (ending m s) = snd (m s)"
  by (cases "m s"; cases "fst (m s)") (auto simp add: ending_def)

subsection \<open>Native calls under \<open>GlobalMutex\<close>\<close>

lemmas serial_simps = serialized_def ending_def under_GlobalMutex_def new_events_def Let_def

lemma renderer_serialized: "serialized s (run_renderer P c s)"
  by (cases c; cases "held s GlobalMutex = free")
     (auto simp add: serial_simps renderer_defs go_defs split: option.splits)

lemma general_serialized: "general_takes_GlobalMutex c \<Longrightarrow> serialized s (run_general P c s)"
  by (cases c; cases "held s GlobalMutex = free")
     (auto simp add: serial_simps general_defs surface_defs go_defs split: option.splits)

lemma window_serialized: "window_takes_GlobalMutex c \<Longrightarrow> serialized s (run_window P c s)"
  by (cases c; cases "held s GlobalMutex = free")
     (auto simp add: serial_simps window_defs go_defs split: option.splits)

lemma input_serialized: "input_takes_GlobalMutex c \<Longrightarrow> serialized s (run_input P c s)"
  by (cases c; cases "held s GlobalMutex = free")
     (auto simp add: serial_simps input_defs go_defs split: option.splits)

lemma joystick_serialized: "joystick_takes_GlobalMutex c \<Longrightarrow> serialized s (run_joystick P c s)"
  by (cases c; cases "held s GlobalMutex = free")
     (auto simp add: serial_simps joystick_defs go_defs split: option.splits)

lemma surface_serialized: "surface_takes_GlobalMutex c \<Longrightarrow> serialized s (run_surface P c s)"
  by (cases c; cases "held s GlobalMutex = free")
     (auto simp add: serial_simps video_defs surface_defs go_defs split: option.splits)

lemma mixer_takes_no_mutex: "mutexes (new_events s (snd (run_mixer P c s))) = {}"
  by (cases c)
     (auto simp add: mutexes_def List.map_filter_simps ending_def new_events_def mixer_defs
        go_defs Let_def split: option.splits)

subsection \<open>What a returning call leaves: no mutex held, no current video surface\<close>









subsection \<open>Forwarding\<close>
































section \<open>The global mutex\<close>

lemma surface_level_leave_GlobalMutex:
  "GlobalMutex \<notin> mutexes (new_events s (snd (Surface_FillRect P p rect color s)))"
  "GlobalMutex \<notin> mutexes (new_events s (snd (SetColorKey P p flags ColorKey s)))"
  "GlobalMutex \<notin> mutexes (new_events s (snd (SetClipRect P p rect s)))"
  "GlobalMutex \<notin> mutexes (new_events s (snd (GetClipRect P p rect s)))"
  "GlobalMutex \<notin> mutexes (new_events s (snd (Surface_Lock P p s)))"
  "GlobalMutex \<notin> mutexes (new_events s (snd (Surface_Unlock P p s)))"
  by (auto simp add: mutexes_def List.map_filter_simps new_events_def surface_level_defs go_defs
        split: option.splits lock_state.splits nat.splits)

text \<open>
  C1 (as amended).  Every operation whose body takes \<open>GlobalMutex\<close> (the renderer,
  texture, window and general operations, the constructors and \<open>Free\<close> of surfaces,
  the key, event, mouse, cursor and tick functions, and the joystick functions that
  open, close, update or count) enters the native library only while it holds
  \<open>GlobalMutex\<close>, and has given it back when it returns.  The surface-level operations
  do not touch \<open>GlobalMutex\<close>, and the operations of package mixer touch no mutex.
\<close>

theorem GlobalMutex_discipline:
  "(takes_GlobalMutex c \<longrightarrow> serialized s (run P c s))
   \<and> mutexes (new_events s (snd (run P (mixer m) s))) = {}
   \<and> GlobalMutex \<notin> mutexes (new_events s (snd (Surface_FillRect P p rect color s)))
   \<and> GlobalMutex \<notin> mutexes (new_events s (snd (SetColorKey P p flags ColorKey s)))
   \<and> GlobalMutex \<notin> mutexes (new_events s (snd (SetClipRect P p rect s)))
   \<and> GlobalMutex \<notin> mutexes (new_events s (snd (GetClipRect P p rect s)))
   \<and> GlobalMutex \<notin> mutexes (new_events s (snd (Surface_Lock P p s)))
   \<and> GlobalMutex \<notin> mutexes (new_events s (snd (Surface_Unlock P p s)))"
proof -
  have "serialized s (run P c s)" if "takes_GlobalMutex c"
    using that
    by (cases c)
       (simp_all add: renderer_serialized general_serialized window_serialized
          surface_serialized input_serialized joystick_serialized)
  then show ?thesis
    by (simp add: mixer_takes_no_mutex surface_level_leave_GlobalMutex)
qed

theorem GlobalMutex_discipline_witness:
  "takes_GlobalMutex (general (op_Init 32))
   \<and> serialized (startup 0) (run sample_platform (general (op_Init 32)) (startup 0))
   \<and> natives (new_events (startup 0) (snd (run sample_platform (general (op_Init 32)) (startup 0))))
       = [Native ''SDL_Init'' [C_Uint32 32], Native ''SDL_Init'' [C_Uint32 32]]"
  using GlobalMutex_discipline [where c = "general (op_Init 32)" and s = "startup 0"
      and P = sample_platform]
  by (simp add: natives_def new_events_def ending_def Init_def go_defs Let_def go_int_of_def
        sample_platform_def startup_def)

text \<open>
  C1 as stated fails: \<open>Chunk.PlayChannelTimed\<close> enters the native library and takes no
  mutex at all.
\<close>

theorem PlayChannelTimed_takes_no_mutex_counterexample:
  "\<not> serialized (startup 0)
       (run sample_platform (mixer (op_PlayChannelTimed (Some \<lparr>cchunk = 1\<rparr>) 0 0 0)) (startup 0))"
  by (simp add: serialized_def under_GlobalMutex_def new_events_def ending_def
        PlayChannelTimed_def go_defs startup_def)

section \<open>The current video surface\<close>





section \<open>Status and recovery\<close>





















section \<open>The event flow\<close>

lemma poll_events_platform:
  assumes "\<And>m. held w m = free"
  shows "poll events_platform ev w =
     (case pending (native w) of
        [] \<Rightarrow> (Inr False,
           w\<lparr>trace := trace w @ [Lock GlobalMutex, Native ''SDL_PollEvent'' [C_ptr ev],
                 Unlock GlobalMutex]\<rparr>)
      | e # es \<Rightarrow> (Inr True,
           w\<lparr>trace := trace w @ [Lock GlobalMutex, Native ''SDL_PollEvent'' [C_ptr ev],
                 Unlock GlobalMutex],
             native := (native w)\<lparr>pending := es, written := Some e\<rparr>\<rparr>))"
proof -
  have h: "(held w)(GlobalMutex := free) = held w"
    using assms by (simp add: fun_upd_idem)
  show ?thesis
    using assms
    by (cases "pending (native w)") (simp_all add: poll_def go_defs events_platform_def h)
qed

lemma flow_invariant_start: "flow_invariant flow_start"
  by (simp add: flow_invariant_def flow_start_def startup_def all_free_def)

lemma flow_invariant_step:
  assumes "flow_invariant F"
  shows "flow_invariant (flow_step act F)"
proof (cases act)
  case (Arrives e)
  with assms show ?thesis by (simp add: flow_invariant_def all_free_def)
next
  case (Collects ev)
  have f: "\<And>m. held (sdl F) m = free"
    using assms by (simp add: flow_invariant_def all_free_iff)
  show ?thesis
    using assms Collects
    by (cases "pending (native (sdl F))")
       (auto simp add: flow_invariant_def collect_def poll_events_platform [OF f] all_free_def)
next
  case (Receives reader)
  with assms show ?thesis
    by (cases "channel F") (simp_all add: flow_invariant_def)
qed

lemma flow_invariant_run: "flow_invariant (flow_run acts)"
proof (induction acts rule: rev_induct)
  case Nil
  show ?case by (simp add: flow_run_def flow_invariant_start)
next
  case (snoc act acts)
  have "flow_run (acts @ [act]) = flow_step act (flow_run acts)"
    by (simp add: flow_run_def)
  with snoc flow_invariant_step show ?case by metis
qed

text \<open>
  C6.  The one collector takes events from the native queue oldest first and sends
  them on the channel; readers receive them oldest first.  So after any schedule of
  arrivals, collector rounds and receipts: the events received so far, in the order
  of receipt, followed by the events waiting on the channel, are exactly the events
  the collector took, in the order it took them; and those, followed by the events
  still pending in the library, are exactly the events the library queued, in the
  order it queued them.  The \<open>i\<close>-th event received is the \<open>i\<close>-th event polled and the
  \<open>i\<close>-th event queued.
\<close>

theorem events_are_delivered_in_queue_order:
  "map snd (delivered (flow_run acts)) @ channel (flow_run acts) = taken (flow_run acts)
   \<and> taken (flow_run acts) @ pending (native (sdl (flow_run acts))) = queued (flow_run acts)
   \<and> map snd (delivered (flow_run acts))
       = take (length (delivered (flow_run acts))) (taken (flow_run acts))
   \<and> map snd (delivered (flow_run acts))
       = take (length (delivered (flow_run acts))) (queued (flow_run acts))"
proof -
  let ?F = "flow_run acts"
  have inv: "map snd (delivered ?F) @ channel ?F = taken ?F"
      "taken ?F @ pending (native (sdl ?F)) = queued ?F"
    using flow_invariant_run [of acts] by (simp_all add: flow_invariant_def)
  have a: "map snd (delivered ?F) = take (length (delivered ?F)) (taken ?F)"
    using inv(1) [symmetric] by simp
  have b: "map snd (delivered ?F) = take (length (delivered ?F)) (queued ?F)"
    using inv(1) [symmetric] inv(2) [symmetric] by simp
  show ?thesis using inv a b by blast
qed

theorem events_flow_witness:
  "delivered (flow_run [Arrives (CHR ''a''), Arrives (CHR ''b''), Collects 0, Arrives (CHR ''c''),
       Receives 1, Collects 0, Receives 2, Receives 1])
     = [(1, CHR ''a''), (2, CHR ''b'')]
   \<and> queued (flow_run [Arrives (CHR ''a''), Arrives (CHR ''b''), Collects 0, Arrives (CHR ''c''),
       Receives 1, Collects 0, Receives 2, Receives 1])
     = ''abc''
   \<and> map snd (delivered (flow_run [Arrives (CHR ''a''), Arrives (CHR ''b''), Collects 0,
       Arrives (CHR ''c''), Receives 1, Collects 0, Receives 2, Receives 1]))
     = take 2 ''abc''"
  using events_are_delivered_in_queue_order
      [of "[Arrives (CHR ''a''), Arrives (CHR ''b''), Collects 0, Arrives (CHR ''c''),
       Receives 1, Collects 0, Receives 2, Receives 1]"]
  by (simp add: flow_run_def flow_start_def collect_def poll_def go_defs events_platform_def
        startup_def)

end
